theory Spec2Isabelle
  imports Complex_Main
begin

section \<open>Numbers, vectors, frames and matrices\<close>

text \<open>
  The planner computes with C++ \<^verbatim>\<open>double\<close>. Throughout this development a double is
  idealised as a \<^typ>\<open>real\<close>: rounding, infinities, NaN and signed zero are outside the
  model. Indices and sizes (\<^verbatim>\<open>int\<close> in the source, never negative where they are used
  as sizes) are \<^typ>\<open>nat\<close>; loop bounds such as \<^verbatim>\<open>num_points_ - 2\<close>, which can be
  negative, are computed in \<^typ>\<open>int\<close>.
\<close>

text \<open>A C loop \<^verbatim>\<open>for (int i = first; i <= last; ++i)\<close> visits these indices.\<close>

definition for_range :: "int \<Rightarrow> int \<Rightarrow> nat list" where
  "for_range lo hi = map nat [lo..hi]"

text \<open>\<^verbatim>\<open>std::vector::resize(n)\<close>: keeps the first \<open>n\<close> elements, pads with the default value.\<close>

definition resize :: "nat \<Rightarrow> 'a \<Rightarrow> 'a list \<Rightarrow> 'a list" where
  "resize n d xs = take n xs @ replicate (n - length xs) d"

subsection \<open>KDL vectors, frames and wrenches\<close>

type_synonym Vector = "real \<times> real \<times> real"

definition Vector_Zero :: Vector where
  "Vector_Zero = (0, 0, 0)"

fun vec_add :: "Vector \<Rightarrow> Vector \<Rightarrow> Vector" where
  "vec_add (a1, a2, a3) (b1, b2, b3) = (a1 + b1, a2 + b2, a3 + b3)"

fun vec_sub :: "Vector \<Rightarrow> Vector \<Rightarrow> Vector" where
  "vec_sub (a1, a2, a3) (b1, b2, b3) = (a1 - b1, a2 - b2, a3 - b3)"

fun vec_neg :: "Vector \<Rightarrow> Vector" where
  "vec_neg (a1, a2, a3) = (- a1, - a2, - a3)"

fun vec_scale :: "Vector \<Rightarrow> real \<Rightarrow> Vector" where
  "vec_scale (a1, a2, a3) k = (a1 * k, a2 * k, a3 * k)"

fun vec_div :: "Vector \<Rightarrow> real \<Rightarrow> Vector" where
  "vec_div (a1, a2, a3) k = (a1 / k, a2 / k, a3 / k)"

text \<open>\<^verbatim>\<open>KDL::dot\<close>, and \<^verbatim>\<open>operator*\<close> of two \<^verbatim>\<open>KDL::Vector\<close>s, which is the cross product.\<close>

fun vec_dot :: "Vector \<Rightarrow> Vector \<Rightarrow> real" where
  "vec_dot (a1, a2, a3) (b1, b2, b3) = a1 * b1 + a2 * b2 + a3 * b3"

fun vec_cross :: "Vector \<Rightarrow> Vector \<Rightarrow> Vector" where
  "vec_cross (a1, a2, a3) (b1, b2, b3) =
     (a2 * b3 - a3 * b2, a3 * b1 - a1 * b3, a1 * b2 - a2 * b1)"

text \<open>\<^verbatim>\<open>Eigen::Vector4d\<close>; \<open>(v.transpose() * v).value()\<close> is its squared norm.\<close>

type_synonym Vector4d = "real \<times> real \<times> real \<times> real"

fun vec4_sqnorm :: "Vector4d \<Rightarrow> real" where
  "vec4_sqnorm (a1, a2, a3, a4) = a1 * a1 + a2 * a2 + a3 * a3 + a4 * a4"

text \<open>\<^verbatim>\<open>KDL::Frame\<close>: a rotation matrix (its three rows) and a translation.\<close>

record Frame =
  frame_M :: "Vector \<times> Vector \<times> Vector"
  frame_p :: Vector

fun rot_apply :: "Vector \<times> Vector \<times> Vector \<Rightarrow> Vector \<Rightarrow> Vector" where
  "rot_apply (r1, r2, r3) v = (vec_dot r1 v, vec_dot r2 v, vec_dot r3 v)"

definition frame_apply :: "Frame \<Rightarrow> Vector \<Rightarrow> Vector" where
  "frame_apply F v = vec_add (rot_apply (frame_M F) v) (frame_p F)"

record Wrench =
  force :: Vector
  torque :: Vector

definition Wrench_Zero :: Wrench where
  "Wrench_Zero = \<lparr>force = Vector_Zero, torque = Vector_Zero\<rparr>"

definition wrench_add :: "Wrench \<Rightarrow> Wrench \<Rightarrow> Wrench" where
  "wrench_add a b = \<lparr>force = vec_add (force a) (force b), torque = vec_add (torque a) (torque b)\<rparr>"

subsection \<open>Eigen matrices\<close>

text \<open>
  A dynamically sized \<^verbatim>\<open>Eigen::MatrixXd\<close>: its two dimensions and its coefficients.
  Only coefficients inside the dimensions are ever read or written.
\<close>

record MatrixXd =
  nrows :: nat
  ncols :: nat
  coeff :: "nat \<Rightarrow> nat \<Rightarrow> real"

datatype abort = RosAssertion | EigenAssertion

text \<open>
  \<^verbatim>\<open>m.block(r0, c0, nr, nc) = src\<close>. The model is of a build in which assertions are
  compiled in (\<^verbatim>\<open>NDEBUG\<close> undefined), the build in which \<^verbatim>\<open>ROS_ASSERT\<close> is active too:
  Eigen then aborts when the block does not lie inside \<open>m\<close>, and when a fixed block is
  assigned an expression of another shape.
\<close>

definition assign_block ::
  "MatrixXd \<Rightarrow> nat \<Rightarrow> nat \<Rightarrow> nat \<Rightarrow> nat \<Rightarrow> MatrixXd \<Rightarrow> abort + MatrixXd" where
  "assign_block m r0 c0 nr nc src =
     (if \<not> (r0 + nr \<le> nrows m \<and> c0 + nc \<le> ncols m) then Inl EigenAssertion
      else if \<not> (nrows src = nr \<and> ncols src = nc) then Inl EigenAssertion
      else Inr (m\<lparr>coeff := \<lambda>i j.
             if r0 \<le> i \<and> i < r0 + nr \<and> c0 \<le> j \<and> j < c0 + nc
             then coeff src (i - r0) (j - c0) else coeff m i j\<rparr>))"

text \<open>\<^verbatim>\<open>m(i, j) = v\<close>.\<close>

definition set_coeff :: "MatrixXd \<Rightarrow> nat \<Rightarrow> nat \<Rightarrow> real \<Rightarrow> MatrixXd" where
  "set_coeff m i j v = m\<lparr>coeff := (coeff m)(i := (coeff m i)(j := v))\<rparr>"

section \<open>The planner's data\<close>

record GroupJoint =
  has_joint_limits :: bool
  joint_limit_min :: real
  joint_limit_max :: real
  kdl_joint_index :: nat

record ItompPlanningGroup =
  pg_name :: string
  pg_num_joints :: nat
  group_joints :: "GroupJoint list"
  pg_num_contacts :: nat

text \<open>
  \<^verbatim>\<open>ItompCIOTrajectory\<close>: the waypoint table read by \<^verbatim>\<open>operator()\<close>, and the blocks
  returned by \<^verbatim>\<open>getFreePoints\<close>, \<^verbatim>\<open>getFreeVelPoints\<close> and \<^verbatim>\<open>getContactTrajectory\<close>.
\<close>

record ItompCIOTrajectory =
  trajectory :: MatrixXd
  free_points :: MatrixXd
  free_vel_points :: MatrixXd
  contact_trajectory :: MatrixXd
  num_contact_phases :: nat
  discretization :: real

text \<open>A segment of the KDL tree: its mass, its centre of gravity, its index in the frame lists.\<close>

record Segment =
  seg_mass :: real
  seg_cog :: Vector
  seg_index :: nat

text \<open>What the cost accumulator reports after \<^verbatim>\<open>compute\<close>.\<close>

record TrajectoryCostAccumulator =
  waypoint_cost :: "nat \<Rightarrow> real"
  trajectory_cost :: real
  feasible :: bool

record PlanningParameters =
  friction_coefficient :: real

text \<open>
  The planning scene of the collision library, as far as \<^verbatim>\<open>computeCollisionCosts\<close> uses
  it: the collision objects of the world (identifier, mesh resource, position) and the
  allowed-collision matrix, a table of pairs of names with the flag that allows the
  collision of the pair.
\<close>

record CollisionObject =
  object_id :: string
  object_mesh :: string
  object_position :: "real list"

type_synonym AllowedCollisionMatrix = "((string \<times> string) \<times> bool) list"

record PlanningScene =
  world_objects :: "CollisionObject list"
  allowed_collision_matrix :: AllowedCollisionMatrix

text \<open>
  The members of \<^verbatim>\<open>EvaluationManager\<close> that the modelled functions read or write, with
  the objects they point to. The buffers of the momentum computation
  (\<^verbatim>\<open>linkPositions_\<close>, \<^verbatim>\<open>CoMVelocities_\<close>, \<^verbatim>\<open>AngularMomentums_\<close>, \<^verbatim>\<open>Torques_\<close>, ...) are left
  out: \<^verbatim>\<open>computeWrenchSum\<close> fills them, but the two lines that would add them to the
  wrench are commented out in the source, so no cost reads them. The last field is not a
  member: it is the function-static flag of \<^verbatim>\<open>computeCollisionCosts\<close>, which lives as long
  as the process and is kept here beside the members that function writes.
\<close>

record EvaluationManager =
  num_joints :: nat
  num_contacts :: nat
  num_points :: nat
  iteration :: int
  planning_group :: ItompPlanningGroup
  group_trajectory :: ItompCIOTrajectory
  full_trajectory :: ItompCIOTrajectory
  segments :: "Segment list"
  planning_parameters :: PlanningParameters
  costAccumulator :: TrajectoryCostAccumulator
  kdl_joint_array :: "real list"
  joint_pos :: "Vector list list"
  joint_axis :: "Vector list list"
  segment_frames :: "Frame list list"
  is_collision_free :: bool
  state_is_in_collision :: "bool list"
  state_validity :: "bool list"
  trajectory_validity :: bool
  last_trajectory_collision_free :: bool
  totalMass :: real
  masses :: "real list"
  numMassSegments :: nat
  gravityForce :: Vector
  CoMPositions :: "Vector list"
  wrenchSum :: "Wrench list"
  tmpContactViolationVector :: "Vector4d list list"
  tmpContactPointVelVector :: "Vector list list"
  stateContactInvariantCost :: "real list"
  statePhysicsViolationCost :: "real list"
  stateCollisionCost :: "real list"
  planning_scene :: PlanningScene
  add_static_environment :: bool

text \<open>
  The collaborators whose code is outside the evaluation manager: the trajectory class,
  the forward-kinematics solver, the contact points, the contact-force solver, the cost
  accumulator and the configuration. Each is a parameter of the model.
\<close>

record collaborators =
  cb_updateTrajectoryFromFreePoints :: "ItompCIOTrajectory \<Rightarrow> ItompCIOTrajectory"
  cb_updateFromGroupTrajectory :: "ItompCIOTrajectory \<Rightarrow> ItompCIOTrajectory \<Rightarrow> ItompCIOTrajectory"
  cb_getTrajectoryPointKDL :: "ItompCIOTrajectory \<Rightarrow> nat \<Rightarrow> real list \<Rightarrow> real list"
  cb_JntToCartFull ::
    "real list \<Rightarrow> Vector list \<times> Vector list \<times> Frame list \<Rightarrow> Vector list \<times> Vector list \<times> Frame list"
  cb_JntToCartPartial ::
    "real list \<Rightarrow> Vector list \<times> Vector list \<times> Frame list \<Rightarrow> Vector list \<times> Vector list \<times> Frame list"
  cb_compute :: "EvaluationManager \<Rightarrow> EvaluationManager"
  cb_initFromNodeHandle :: "PlanningParameters \<Rightarrow> PlanningParameters"
  cb_getContactPhase :: "ItompCIOTrajectory \<Rightarrow> nat \<Rightarrow> nat"
  cb_getContactValue :: "ItompCIOTrajectory \<Rightarrow> nat \<Rightarrow> nat \<Rightarrow> real"
  cb_parentSegmentNumber :: "nat \<Rightarrow> nat"
  cb_getPosition :: "nat \<Rightarrow> nat \<Rightarrow> Frame list list \<Rightarrow> Vector"
  cb_updateContactViolationVector ::
    "nat \<Rightarrow> int \<Rightarrow> int \<Rightarrow> real \<Rightarrow> Vector4d list \<Rightarrow> Vector list \<Rightarrow> Frame list list
       \<Rightarrow> Vector4d list \<times> Vector list"
  cb_solveContactForces ::
    "real \<Rightarrow> Vector list \<Rightarrow> Wrench \<Rightarrow> real list \<Rightarrow> Frame list \<Rightarrow> nat \<Rightarrow> Vector"

text \<open>
  The collaborators of the cost computation: the two configuration values that
  \<^verbatim>\<open>computeCollisionCosts\<close> reads, the number of variables of the robot state, the collision
  check (scene, joint positions, allowed-collision matrix; the answer is the depth of the
  first contact of each pair of the contact map), the smoothness model's cost at a waypoint
  of the group trajectory, and the cost model's verdict on the per-waypoint costs.
\<close>

record cost_collaborators =
  cc_getEnvironmentModel :: "PlanningParameters \<Rightarrow> string"
  cc_getEnvironmentModelPosition :: "PlanningParameters \<Rightarrow> real list"
  cc_getVariableCount :: nat
  cc_checkCollisionUnpadded :: "PlanningScene \<Rightarrow> real list \<Rightarrow> AllowedCollisionMatrix \<Rightarrow> real list"
  cc_smoothness :: "ItompCIOTrajectory \<Rightarrow> nat \<Rightarrow> real"
  cc_feasible :: "real list \<Rightarrow> bool"

section \<open>Joint limits\<close>

text \<open>The body of the inner loop of \<^verbatim>\<open>handleJointLimits\<close>, over the waypoints.\<close>

definition limit_point :: "nat \<Rightarrow> real \<Rightarrow> real \<Rightarrow> nat \<Rightarrow> MatrixXd \<Rightarrow> MatrixXd" where
  "limit_point joint joint_max joint_min i T =
     (if coeff T i joint > joint_max then set_coeff T i joint joint_max
      else if coeff T i joint < joint_min then set_coeff T i joint joint_min
      else T)"

text \<open>The body of the outer loop, over the joints; the inner loop runs over \<open>1 \<le> i < num_points - 2\<close>.\<close>

definition limit_joint :: "EvaluationManager \<Rightarrow> nat \<Rightarrow> MatrixXd \<Rightarrow> MatrixXd" where
  "limit_joint s joint T =
     (if \<not> has_joint_limits (group_joints (planning_group s) ! joint) then T
      else
        let joint_max = joint_limit_max (group_joints (planning_group s) ! joint);
            joint_min = joint_limit_min (group_joints (planning_group s) ! joint)
        in fold (limit_point joint joint_max joint_min) (for_range 1 (int (num_points s) - 3)) T)"

text \<open>\<^verbatim>\<open>handleJointLimits\<close> rewrites the waypoint table of the group trajectory.\<close>

definition handleJointLimits :: "EvaluationManager \<Rightarrow> EvaluationManager" where
  "handleJointLimits s =
     s\<lparr>group_trajectory := (group_trajectory s)
         \<lparr>trajectory := fold (limit_joint s) [0..<num_joints s] (trajectory (group_trajectory s))\<rparr>\<rparr>"

section \<open>Mass, gravity and the reference wrench\<close>

text \<open>The body of the loop over the segment map in \<^verbatim>\<open>computeMassAndGravityForce\<close>.\<close>

definition mass_step :: "Segment \<Rightarrow> EvaluationManager \<Rightarrow> EvaluationManager" where
  "mass_step seg s =
     (let mass = seg_mass seg in
      if mass = 0 then s
      else s\<lparr>totalMass := totalMass s + mass,
             masses := masses s @ [mass],
             numMassSegments := numMassSegments s + 1\<rparr>)"

text \<open>
  \<^verbatim>\<open>computeMassAndGravityForce\<close>. The gravity force is first set to the total mass times
  \<open>(0, 0, -9.8)\<close> and then overwritten. Eigen leaves a default-constructed
  \<^verbatim>\<open>Vector4d\<close> uninitialised; \<open>uninit\<close> stands for that value.
\<close>

definition computeMassAndGravityForce :: "Vector4d \<Rightarrow> EvaluationManager \<Rightarrow> EvaluationManager" where
  "computeMassAndGravityForce uninit s =
     (let s1 = fold mass_step (segments s) (s\<lparr>totalMass := 0, numMassSegments := 0\<rparr>);
          s2 = s1\<lparr>gravityForce := vec_scale (0, 0, - (98 / 10)) (totalMass s1)\<rparr>;
          s3 = s2\<lparr>gravityForce := (0, 0, - 1)\<rparr>;
          s4 = s3\<lparr>CoMPositions := resize (num_points s3) Vector_Zero (CoMPositions s3),
                  wrenchSum := resize (num_points s3) Wrench_Zero (wrenchSum s3)\<rparr>
      in s4\<lparr>tmpContactViolationVector :=
               map (resize (num_points s4) uninit)
                 (resize (num_contacts s4) [] (tmpContactViolationVector s4)),
             tmpContactPointVelVector :=
               map (resize (num_points s4) Vector_Zero)
                 (resize (num_contacts s4) [] (tmpContactPointVelVector s4))\<rparr>)"

text \<open>
  The lines of \<^verbatim>\<open>initialize\<close> that size and fill the buffers of the modelled state
  (lines 105-106, 116-118, 125, 128 and 130-132); the pointers and the counts it stores
  before, and the planning scene it creates last, are taken as already stored in \<open>s\<close>.
\<close>

definition initialize :: "Vector4d \<Rightarrow> EvaluationManager \<Rightarrow> EvaluationManager" where
  "initialize uninit s =
     (let s1 = s\<lparr>is_collision_free := False,
                 state_is_in_collision := resize (num_points s) False (state_is_in_collision s)\<rparr>;
          s2 = s1\<lparr>state_validity := map (\<lambda>_. True) (resize (num_points s1) False (state_validity s1))\<rparr>;
          s3 = s2\<lparr>last_trajectory_collision_free := False\<rparr>;
          s4 = computeMassAndGravityForce uninit s3
      in s4\<lparr>stateContactInvariantCost := resize (num_points s4) 0 (stateContactInvariantCost s4),
             statePhysicsViolationCost := resize (num_points s4) 0 (statePhysicsViolationCost s4),
             stateCollisionCost := resize (num_points s4) 0 (stateCollisionCost s4)\<rparr>)"

text \<open>The body of the loop over the segment map in \<^verbatim>\<open>updateCoM\<close>, and \<^verbatim>\<open>updateCoM\<close>.\<close>

definition updateCoM_segment :: "Frame list \<Rightarrow> Segment \<Rightarrow> Vector \<Rightarrow> Vector" where
  "updateCoM_segment frames seg com =
     (let mass = seg_mass seg;
          sn = seg_index seg;
          pos = frame_apply (frames ! sn) (seg_cog seg)
      in if mass = 0 then com else vec_add com (vec_scale pos mass))"

definition updateCoM :: "nat \<Rightarrow> EvaluationManager \<Rightarrow> EvaluationManager" where
  "updateCoM point s =
     (let com = fold (updateCoM_segment (segment_frames s ! point)) (segments s) Vector_Zero
      in s\<lparr>CoMPositions := (CoMPositions s)[point := vec_div com (totalMass s)]\<rparr>)"

text \<open>The three loops of \<^verbatim>\<open>computeWrenchSum\<close> that write modelled state.\<close>

definition wrench_point :: "nat \<Rightarrow> EvaluationManager \<Rightarrow> EvaluationManager" where
  "wrench_point point s =
     s\<lparr>wrenchSum := (wrenchSum s)[point :=
          \<lparr>force = gravityForce s, torque = vec_cross (CoMPositions s ! point) (gravityForce s)\<rparr>]\<rparr>"

definition contact_violation_update ::
  "collaborators \<Rightarrow> nat \<Rightarrow> EvaluationManager \<Rightarrow> EvaluationManager" where
  "contact_violation_update cb i s =
     (let r = cb_updateContactViolationVector cb i 1 (int (num_points s) - 2)
                (discretization (group_trajectory s))
                (tmpContactViolationVector s ! i) (tmpContactPointVelVector s ! i)
                (segment_frames s)
      in s\<lparr>tmpContactViolationVector := (tmpContactViolationVector s)[i := fst r],
           tmpContactPointVelVector := (tmpContactPointVelVector s)[i := snd r]\<rparr>)"

definition computeWrenchSum :: "collaborators \<Rightarrow> EvaluationManager \<Rightarrow> EvaluationManager" where
  "computeWrenchSum cb s =
     (if pg_name (planning_group s) \<noteq> ''lower_body'' \<and> pg_name (planning_group s) \<noteq> ''whole_body''
      then s
      else
        let start = (if iteration s = 0 then 0 else 1);
            stop = (if iteration s = 0 then int (num_points s) - 1 else int (num_points s) - 2);
            s1 = fold updateCoM (for_range start stop) s;
            s2 = fold wrench_point (for_range 1 (int (num_points s1) - 2)) s1
        in fold (contact_violation_update cb) [0..<pg_num_contacts (planning_group s2)] s2)"

section \<open>Stability costs\<close>

text \<open>
  The quantities that \<^verbatim>\<open>computeStabilityCosts\<close> computes at one waypoint of a group that
  passes the name gate, in the order of the source: the contact positions and parent
  frames, the activations of the waypoint's contact phase, the solved forces, the
  contact-invariant cost, the contact wrench and the physics-violation cost.
\<close>

definition contact_parent_frames :: "collaborators \<Rightarrow> EvaluationManager \<Rightarrow> nat \<Rightarrow> Frame list" where
  "contact_parent_frames cb s point =
     map (\<lambda>i. segment_frames s ! point ! cb_parentSegmentNumber cb i)
       [0..<pg_num_contacts (planning_group s)]"

definition contact_positions :: "collaborators \<Rightarrow> EvaluationManager \<Rightarrow> nat \<Rightarrow> Vector list" where
  "contact_positions cb s point =
     map (\<lambda>i. cb_getPosition cb i point (segment_frames s)) [0..<pg_num_contacts (planning_group s)]"

definition contact_values :: "collaborators \<Rightarrow> EvaluationManager \<Rightarrow> nat \<Rightarrow> real list" where
  "contact_values cb s point =
     (let phase = cb_getContactPhase cb (group_trajectory s) point
      in map (\<lambda>i. cb_getContactValue cb (group_trajectory s) phase i)
           [0..<pg_num_contacts (planning_group s)])"

definition contact_forces :: "collaborators \<Rightarrow> EvaluationManager \<Rightarrow> nat \<Rightarrow> Vector list" where
  "contact_forces cb s point =
     map (cb_solveContactForces cb (friction_coefficient (planning_parameters s))
            (contact_positions cb s point) (wrenchSum s ! point) (contact_values cb s point)
            (contact_parent_frames cb s point))
       [0..<pg_num_contacts (planning_group s)]"

definition state_contact_invariant_cost :: "collaborators \<Rightarrow> EvaluationManager \<Rightarrow> nat \<Rightarrow> real" where
  "state_contact_invariant_cost cb s point =
     foldl (\<lambda>acc i.
         let cost = vec4_sqnorm (tmpContactViolationVector s ! i ! point)
                    + 16 * vec_dot (tmpContactPointVelVector s ! i ! point)
                             (tmpContactPointVelVector s ! i ! point)
         in acc + contact_values cb s point ! i * cost)
       0 [0..<pg_num_contacts (planning_group s)]"

definition contactWrench :: "collaborators \<Rightarrow> EvaluationManager \<Rightarrow> nat \<Rightarrow> Wrench" where
  "contactWrench cb s point =
     foldl (\<lambda>w i.
         \<lparr>force = vec_add (force w) (contact_forces cb s point ! i),
          torque = vec_add (torque w)
                     (vec_cross (contact_positions cb s point ! i) (contact_forces cb s point ! i))\<rparr>)
       Wrench_Zero [0..<pg_num_contacts (planning_group s)]"

definition wrench_norm :: "Wrench \<Rightarrow> real" where
  "wrench_norm w =
     (case (force w, torque w) of
        ((fx, fy, fz), (tx, ty, tz)) \<Rightarrow>
          sqrt (fx * fx + fy * fy + fz * fz + tx * tx + ty * ty + tz * tz))"

definition state_physics_violation_cost :: "collaborators \<Rightarrow> EvaluationManager \<Rightarrow> nat \<Rightarrow> real" where
  "state_physics_violation_cost cb s point =
     (let violation = wrench_add (contactWrench cb s point) (wrenchSum s ! point)
      in wrench_norm violation)"

text \<open>The body of the loop over the waypoints, and \<^verbatim>\<open>computeStabilityCosts\<close>.\<close>

definition stability_point :: "collaborators \<Rightarrow> nat \<Rightarrow> EvaluationManager \<Rightarrow> EvaluationManager" where
  "stability_point cb point s =
     (if pg_name (planning_group s) \<noteq> ''lower_body'' \<and> pg_name (planning_group s) \<noteq> ''whole_body''
      then s\<lparr>stateContactInvariantCost := (stateContactInvariantCost s)[point := 0],
             statePhysicsViolationCost := (statePhysicsViolationCost s)[point := 0]\<rparr>
      else s\<lparr>stateContactInvariantCost :=
                (stateContactInvariantCost s)[point := state_contact_invariant_cost cb s point],
             statePhysicsViolationCost :=
                (statePhysicsViolationCost s)[point := state_physics_violation_cost cb s point]\<rparr>)"

definition computeStabilityCosts :: "collaborators \<Rightarrow> EvaluationManager \<Rightarrow> EvaluationManager" where
  "computeStabilityCosts cb s =
     fold (stability_point cb) (for_range 1 (int (num_points s) - 2)) s"

section \<open>Collision costs\<close>

text \<open>\<^verbatim>\<open>AllowedCollisionMatrix::setEntry(bool)\<close> sets the flag of every pair of the table.\<close>

definition setEntry :: "AllowedCollisionMatrix \<Rightarrow> bool \<Rightarrow> AllowedCollisionMatrix" where
  "setEntry acm allowed = map (\<lambda>e. (fst e, allowed)) acm"

text \<open>
  The first part of \<^verbatim>\<open>computeCollisionCosts\<close> (lines 752-791): the matrix is copied from the
  scene; on the first call with an environment model configured, the environment is added
  to the scene, the static flag is cleared and every pair of the copy is allowed. The
  result is the manager and the matrix that the checks below are given. The orientation
  of the object is a constant and is left out.
\<close>

definition environment_step ::
  "cost_collaborators \<Rightarrow> EvaluationManager \<Rightarrow> EvaluationManager \<times> AllowedCollisionMatrix" where
  "environment_step cc s =
     (let acm = allowed_collision_matrix (planning_scene s);
          environment_file = cc_getEnvironmentModel cc (planning_parameters s)
      in if add_static_environment s \<and> environment_file \<noteq> []
         then
           let environment_position =
                 resize 3 0 (cc_getEnvironmentModelPosition cc (planning_parameters s));
               collision_object =
                 \<lparr>object_id = ''environment'',
                  object_mesh = ''package://move_itomp/meshes/'' @ environment_file,
                  object_position = environment_position\<rparr>;
               s1 = s\<lparr>planning_scene := (planning_scene s)
                      \<lparr>world_objects := world_objects (planning_scene s) @ [collision_object]\<rparr>\<rparr>;
               s2 = s1\<lparr>add_static_environment := False\<rparr>
           in (s2, setEntry acm True)
         else (s, acm))"

text \<open>
  The body of the loop over the waypoints (lines 805-830): the joint positions of the
  waypoint in the full trajectory, the collision check, and the sum of the depths.
\<close>

definition collision_point ::
  "cost_collaborators \<Rightarrow> AllowedCollisionMatrix \<Rightarrow> nat \<Rightarrow> EvaluationManager \<Rightarrow> EvaluationManager" where
  "collision_point cc acm i s =
     (let positions = map (\<lambda>k. coeff (trajectory (full_trajectory s)) i k)
                        [0..<cc_getVariableCount cc];
          contacts = cc_checkCollisionUnpadded cc (planning_scene s) positions acm;
          depthSum = foldl (\<lambda>sum depth. sum + depth) 0 contacts
      in s\<lparr>stateCollisionCost := (stateCollisionCost s)[i := depthSum]\<rparr>)"

definition computeCollisionCosts :: "cost_collaborators \<Rightarrow> EvaluationManager \<Rightarrow> EvaluationManager" where
  "computeCollisionCosts cc s =
     (case environment_step cc s of
        (s1, acm) \<Rightarrow> fold (collision_point cc acm) [0..<num_points s1] s1)"

section \<open>One evaluation\<close>

text \<open>\<^verbatim>\<open>updateFullTrajectory\<close>.\<close>

definition updateFullTrajectory :: "collaborators \<Rightarrow> EvaluationManager \<Rightarrow> EvaluationManager" where
  "updateFullTrajectory cb s =
     s\<lparr>full_trajectory := cb_updateFromGroupTrajectory cb (full_trajectory s) (group_trajectory s)\<rparr>"

text \<open>
  The three buffers that a forward-kinematics call fills for one waypoint:
  \<^verbatim>\<open>joint_pos_[i]\<close>, \<^verbatim>\<open>joint_axis_[i]\<close> and \<^verbatim>\<open>segment_frames_[i]\<close>.
\<close>

definition fk_buffers :: "EvaluationManager \<Rightarrow> nat \<Rightarrow> Vector list \<times> Vector list \<times> Frame list" where
  "fk_buffers s i = (joint_pos s ! i, joint_axis s ! i, segment_frames s ! i)"

definition set_fk_buffers ::
  "nat \<Rightarrow> Vector list \<times> Vector list \<times> Frame list \<Rightarrow> EvaluationManager \<Rightarrow> EvaluationManager" where
  "set_fk_buffers i r s =
     s\<lparr>joint_pos := (joint_pos s)[i := fst r],
       joint_axis := (joint_axis s)[i := fst (snd r)],
       segment_frames := (segment_frames s)[i := snd (snd r)]\<rparr>"

text \<open>
  The body of the loop of \<^verbatim>\<open>performForwardKinematics\<close>. The test of
  \<^verbatim>\<open>state_is_in_collision_[i]\<close> follows the assignment of \<^verbatim>\<open>false\<close> to it, as in the
  source.
\<close>

definition fk_point :: "collaborators \<Rightarrow> nat \<Rightarrow> EvaluationManager \<Rightarrow> EvaluationManager" where
  "fk_point cb i s =
     (let q0 = cb_getTrajectoryPointKDL cb (full_trajectory s) i (kdl_joint_array s);
          q = (if i < 1
               then fold (\<lambda>j q. q[kdl_joint_index (group_joints (planning_group s) ! j) :=
                                   coeff (trajectory (group_trajectory s)) i j])
                      [0..<pg_num_joints (planning_group s)] q0
               else q0);
          s1 = s\<lparr>kdl_joint_array := q\<rparr>;
          s2 = (if i = 0 then set_fk_buffers i (cb_JntToCartFull cb q (fk_buffers s1 i)) s1
                else set_fk_buffers i (cb_JntToCartPartial cb q (fk_buffers s1 i)) s1);
          s3 = s2\<lparr>state_is_in_collision := (state_is_in_collision s2)[i := False]\<rparr>
      in if state_is_in_collision s3 ! i then s3\<lparr>is_collision_free := False\<rparr> else s3)"

text \<open>
  \<^verbatim>\<open>performForwardKinematics\<close>; \<^verbatim>\<open>getIteration()\<close> reads the iteration counter that the
  manager was constructed with.
\<close>

definition performForwardKinematics ::
  "collaborators \<Rightarrow> EvaluationManager \<Rightarrow> bool \<times> EvaluationManager" where
  "performForwardKinematics cb s =
     (let s0 = s\<lparr>is_collision_free := True\<rparr>;
          start = (if iteration s0 \<le> 0 then 0 else 1);
          stop = (if iteration s0 \<le> 0 then int (num_points s0) - 1 else int (num_points s0) - 2);
          s1 = (if iteration s0 \<le> 0
                then let q = cb_getTrajectoryPointKDL cb (full_trajectory s0) (nat stop)
                               (kdl_joint_array s0);
                         s' = s0\<lparr>kdl_joint_array := q\<rparr>
                     in set_fk_buffers (nat stop) (cb_JntToCartFull cb q (fk_buffers s' (nat stop))) s'
                else s0);
          s2 = fold (fk_point cb) (for_range start stop) s1
      in (is_collision_free s2, s2))"

text \<open>The body of the loop of \<^verbatim>\<open>computeTrajectoryValidity\<close>, and the function.\<close>

definition validity_point :: "nat \<Rightarrow> EvaluationManager \<Rightarrow> EvaluationManager" where
  "validity_point i s =
     (let valid = True;
          s1 = s\<lparr>state_validity := (state_validity s)[i := valid]\<rparr>
      in if \<not> valid then s1\<lparr>trajectory_validity := False\<rparr> else s1)"

definition computeTrajectoryValidity :: "EvaluationManager \<Rightarrow> EvaluationManager" where
  "computeTrajectoryValidity s =
     fold validity_point (for_range 1 (int (num_points s) - 2)) (s\<lparr>trajectory_validity := True\<rparr>)"

text \<open>
  \<^verbatim>\<open>evaluate\<close>, in the four parts it has. First the copy of the parameters into the
  group trajectory (lines 145-151): the \<^verbatim>\<open>ROS_ASSERT\<close> and the three block assignments.
\<close>

definition write_parameters ::
  "EvaluationManager \<Rightarrow> MatrixXd \<Rightarrow> MatrixXd \<Rightarrow> MatrixXd \<Rightarrow> abort + EvaluationManager" where
  "write_parameters s parameters vel_parameters contact_parameters =
     (let num_free_points = nrows parameters in
      if nrows (free_points (group_trajectory s)) \<noteq> num_free_points + 2 then Inl RosAssertion
      else
        case assign_block (free_points (group_trajectory s)) 1 0 num_free_points (num_joints s)
               parameters of
          Inl e \<Rightarrow> Inl e
        | Inr fp \<Rightarrow>
        (case assign_block (free_vel_points (group_trajectory s)) 1 0 num_free_points (num_joints s)
               vel_parameters of
          Inl e \<Rightarrow> Inl e
        | Inr fv \<Rightarrow>
        (case assign_block (contact_trajectory (group_trajectory s)) 0 0 (num_free_points + 1)
               (num_contacts s) contact_parameters of
          Inl e \<Rightarrow> Inl e
        | Inr ct \<Rightarrow>
            Inr (s\<lparr>group_trajectory := (group_trajectory s)
                   \<lparr>free_points := fp, free_vel_points := fv, contact_trajectory := ct\<rparr>\<rparr>))))"

text \<open>
  Then the pipeline (lines 153-169): the trajectory update, the joint limits, the full
  trajectory, forward kinematics, validity, the cost accumulator and the feasibility flag.
\<close>

definition evaluate_trajectory :: "collaborators \<Rightarrow> EvaluationManager \<Rightarrow> EvaluationManager" where
  "evaluate_trajectory cb s =
     (let s1 = s\<lparr>group_trajectory := cb_updateTrajectoryFromFreePoints cb (group_trajectory s)\<rparr>;
          s2 = handleJointLimits s1;
          s3 = updateFullTrajectory cb s2;
          r = performForwardKinematics cb s3;
          s4 = (snd r)\<lparr>last_trajectory_collision_free := fst r\<rparr>;
          s5 = computeTrajectoryValidity s4;
          s6 = s5\<lparr>last_trajectory_collision_free :=
                  (last_trajectory_collision_free s5 \<and> trajectory_validity s5)\<rparr>;
          s7 = cb_compute cb s6
      in s7\<lparr>last_trajectory_collision_free :=
              (last_trajectory_collision_free s7 \<and> feasible (costAccumulator s7))\<rparr>)"

text \<open>
  The periodic diagnostics (lines 180-212), on the value of the static call counter after
  its increment: the configuration is read again; rendering and printing produce output
  only and leave the modelled state as it is.
\<close>

definition diagnostics :: "collaborators \<Rightarrow> nat \<Rightarrow> EvaluationManager \<Rightarrow> EvaluationManager" where
  "diagnostics cb count s =
     (if count mod 1000 = 0
      then s\<lparr>planning_parameters := cb_initFromNodeHandle cb (planning_parameters s)\<rparr>
      else s)"

text \<open>
  \<^verbatim>\<open>evaluate\<close>: the static counter \<open>count\<close> goes in and out beside the manager; the
  result is the returned cost, the filled \<open>costs\<close> vector, the counter and the manager.
\<close>

definition evaluate ::
  "collaborators \<Rightarrow> nat \<Rightarrow> EvaluationManager \<Rightarrow> MatrixXd \<Rightarrow> MatrixXd \<Rightarrow> MatrixXd \<Rightarrow> real list
     \<Rightarrow> abort + (real \<times> real list \<times> nat \<times> EvaluationManager)" where
  "evaluate cb count s parameters vel_parameters contact_parameters costs =
     (case write_parameters s parameters vel_parameters contact_parameters of
        Inl e \<Rightarrow> Inl e
      | Inr s1 \<Rightarrow>
          let s2 = evaluate_trajectory cb s1 in
          if length costs \<noteq> num_points s2 then Inl RosAssertion
          else
            let costs' = fold (\<lambda>i c. c[i := waypoint_cost (costAccumulator s2) i])
                           [0..<num_points s2] costs;
                count' = count + 1;
                s3 = diagnostics cb count' s2
            in Inr (trajectory_cost (costAccumulator s3), costs', count', s3))"

section \<open>The optimization vector\<close>

text \<open>
  The packing loop of \<^verbatim>\<open>optimize_nlp\<close> (lines 910-939). The source writes the entries
  one after the other at a running index; the model appends them.
\<close>

definition matrix_row :: "MatrixXd \<Rightarrow> nat \<Rightarrow> nat \<Rightarrow> real list" where
  "matrix_row m i n = map (\<lambda>d. coeff m i d) [0..<n]"






section \<open>Predicates and derived quantities\<close>

text \<open>The name gate of \<^verbatim>\<open>computeWrenchSum\<close> and \<^verbatim>\<open>computeStabilityCosts\<close>, as a predicate.\<close>

definition dynamics_group :: "EvaluationManager \<Rightarrow> bool" where
  "dynamics_group s \<longleftrightarrow>
     pg_name (planning_group s) = ''lower_body'' \<or> pg_name (planning_group s) = ''whole_body''"

text \<open>What the loop body of \<^verbatim>\<open>computeStabilityCosts\<close> stores at a waypoint.\<close>

definition ci_value :: "collaborators \<Rightarrow> EvaluationManager \<Rightarrow> nat \<Rightarrow> real" where
  "ci_value cb s p = (if dynamics_group s then state_contact_invariant_cost cb s p else 0)"

definition pv_value :: "collaborators \<Rightarrow> EvaluationManager \<Rightarrow> nat \<Rightarrow> real" where
  "pv_value cb s p = (if dynamics_group s then state_physics_violation_cost cb s p else 0)"

text \<open>
  The two cost buffers hold zero at every waypoint outside the interior range
  \<open>1 .. num_points - 2\<close>.
\<close>

definition boundary_costs_zero :: "EvaluationManager \<Rightarrow> bool" where
  "boundary_costs_zero s \<longleftrightarrow>
     (\<forall>point < num_points s. point < 1 \<or> num_points s < point + 2 \<longrightarrow>
        stateContactInvariantCost s ! point = 0 \<and> statePhysicsViolationCost s ! point = 0)"

text \<open>The centre of mass that \<^verbatim>\<open>updateCoM\<close> stores for a waypoint.\<close>

definition center_of_mass :: "EvaluationManager \<Rightarrow> nat \<Rightarrow> Vector" where
  "center_of_mass s point =
     vec_div (fold (updateCoM_segment (segment_frames s ! point)) (segments s) Vector_Zero)
       (totalMass s)"

text \<open>Sums of vectors, and the negation and difference of wrenches.\<close>

definition vec_sum :: "Vector list \<Rightarrow> Vector" where
  "vec_sum vs = foldl vec_add Vector_Zero vs"

definition wrench_neg :: "Wrench \<Rightarrow> Wrench" where
  "wrench_neg w = \<lparr>force = vec_neg (force w), torque = vec_neg (torque w)\<rparr>"

definition wrench_sub :: "Wrench \<Rightarrow> Wrench \<Rightarrow> Wrench" where
  "wrench_sub a b = \<lparr>force = vec_sub (force a) (force b), torque = vec_sub (torque a) (torque b)\<rparr>"

text \<open>The torque about the point \<open>q\<close> of a force \<open>f\<close> applied at the point \<open>p\<close>.\<close>

definition torque_about :: "Vector \<Rightarrow> Vector \<Rightarrow> Vector \<Rightarrow> Vector" where
  "torque_about q p f = vec_cross (vec_sub p q) f"

text \<open>
  The reference wrench as the specification words it: the force is \<open>(0, 0, -1)\<close> at every
  interior waypoint, and the torque is the one that gravity, acting at the centre of mass,
  exerts about the centre of mass.
\<close>

definition claimed_reference_wrench :: "collaborators \<Rightarrow> EvaluationManager \<Rightarrow> nat \<Rightarrow> bool" where
  "claimed_reference_wrench cb s point \<longleftrightarrow>
     force (wrenchSum (computeWrenchSum cb s) ! point) = (0, 0, - 1)
     \<and> torque (wrenchSum (computeWrenchSum cb s) ! point) =
         torque_about (CoMPositions (computeWrenchSum cb s) ! point)
           (CoMPositions (computeWrenchSum cb s) ! point) (0, 0, - 1)"

text \<open>
  The physics-violation cost as the specification words it: the contact forces' resultant
  force and their torque taken about the centre of mass, compared with the negated
  reference wrench.
\<close>

definition spec_contact_wrench_about_com :: "collaborators \<Rightarrow> EvaluationManager \<Rightarrow> nat \<Rightarrow> Wrench" where
  "spec_contact_wrench_about_com cb s point =
     \<lparr>force = vec_sum (contact_forces cb s point),
      torque = vec_sum (map2 (torque_about (CoMPositions s ! point))
                  (contact_positions cb s point) (contact_forces cb s point))\<rparr>"

definition spec_physics_violation_cost :: "collaborators \<Rightarrow> EvaluationManager \<Rightarrow> nat \<Rightarrow> real" where
  "spec_physics_violation_cost cb s point =
     wrench_norm (wrench_sub (spec_contact_wrench_about_com cb s point)
                    (wrench_neg (wrenchSum s ! point)))"

text \<open>What the loop body \<^verbatim>\<open>wrench_point\<close> stores at a waypoint.\<close>

definition wrench_value :: "EvaluationManager \<Rightarrow> nat \<Rightarrow> Wrench" where
  "wrench_value s p =
     \<lparr>force = gravityForce s, torque = vec_cross (CoMPositions s ! p) (gravityForce s)\<rparr>"

text \<open>The value the inner loop of \<^verbatim>\<open>handleJointLimits\<close> leaves in an entry it visits.\<close>

definition clamp :: "real \<Rightarrow> real \<Rightarrow> real \<Rightarrow> real" where
  "clamp lo hi v = (if v > hi then hi else if v < lo then lo else v)"

text \<open>
  The entries \<^verbatim>\<open>handleJointLimits\<close> visits: the waypoints \<open>1 .. num_points - 3\<close> of the joints
  that declare limits.
\<close>

definition limited_entry :: "EvaluationManager \<Rightarrow> nat \<Rightarrow> nat \<Rightarrow> bool" where
  "limited_entry s i j \<longleftrightarrow>
     1 \<le> i \<and> i + 3 \<le> num_points s \<and> j < num_joints s
     \<and> has_joint_limits (group_joints (planning_group s) ! j)"

text \<open>
  The sizes agree as \<^verbatim>\<open>initialize\<close> leaves them, and the limits a joint declares form an
  interval.
\<close>

definition limits_well_formed :: "EvaluationManager \<Rightarrow> bool" where
  "limits_well_formed s \<longleftrightarrow>
     length (group_joints (planning_group s)) = num_joints s
     \<and> nrows (trajectory (group_trajectory s)) = num_points s
     \<and> ncols (trajectory (group_trajectory s)) = num_joints s
     \<and> (\<forall>j < num_joints s. has_joint_limits (group_joints (planning_group s) ! j) \<longrightarrow>
            joint_limit_min (group_joints (planning_group s) ! j)
              \<le> joint_limit_max (group_joints (planning_group s) ! j))"

definition within_limits :: "EvaluationManager \<Rightarrow> bool" where
  "within_limits s \<longleftrightarrow>
     (\<forall>i j. limited_entry s i j \<longrightarrow>
        joint_limit_min (group_joints (planning_group s) ! j) \<le> coeff (trajectory (group_trajectory s)) i j
        \<and> coeff (trajectory (group_trajectory s)) i j \<le> joint_limit_max (group_joints (planning_group s) ! j))"

text \<open>
  The cost accumulator's \<^verbatim>\<open>compute\<close> writes neither the manager's waypoint count nor its
  collision flag.
\<close>

definition accumulator_keeps_manager :: "collaborators \<Rightarrow> bool" where
  "accumulator_keeps_manager cb \<longleftrightarrow>
     (\<forall>t. num_points (cb_compute cb t) = num_points t
        \<and> last_trajectory_collision_free (cb_compute cb t) = last_trajectory_collision_free t)"

text \<open>
  The blocks of the group trajectory are sized for \<open>num_free\<close> free waypoints and the
  manager's joint and contact counts; the arguments of \<^verbatim>\<open>evaluate\<close> have the shapes that go
  with them.
\<close>

definition blocks_configured :: "EvaluationManager \<Rightarrow> nat \<Rightarrow> bool" where
  "blocks_configured s num_free \<longleftrightarrow>
     nrows (free_points (group_trajectory s)) = num_free + 2
     \<and> ncols (free_points (group_trajectory s)) = num_joints s
     \<and> nrows (free_vel_points (group_trajectory s)) = num_free + 2
     \<and> ncols (free_vel_points (group_trajectory s)) = num_joints s
     \<and> num_free + 1 \<le> nrows (contact_trajectory (group_trajectory s))
     \<and> ncols (contact_trajectory (group_trajectory s)) = num_contacts s"

definition shapes_match ::
  "EvaluationManager \<Rightarrow> nat \<Rightarrow> MatrixXd \<Rightarrow> MatrixXd \<Rightarrow> MatrixXd \<Rightarrow> real list \<Rightarrow> bool" where
  "shapes_match s num_free parameters vel_parameters contact_parameters costs \<longleftrightarrow>
     nrows parameters = num_free \<and> ncols parameters = num_joints s
     \<and> nrows vel_parameters = num_free \<and> ncols vel_parameters = num_joints s
     \<and> nrows contact_parameters = num_free + 1 \<and> ncols contact_parameters = num_contacts s
     \<and> length costs = num_points s"

text \<open>What the caller of \<^verbatim>\<open>evaluate\<close> receives: the returned cost and the cost vector, or the abort.\<close>

definition returned_costs ::
  "abort + (real \<times> real list \<times> nat \<times> EvaluationManager) \<Rightarrow> abort + (real \<times> real list)" where
  "returned_costs r = map_sum id (\<lambda>x. (fst x, fst (snd x))) r"











section \<open>A small planning problem\<close>

text \<open>
  Three waypoints, one joint, one contact and one segment of mass 2 whose frame is the
  identity rotation at \<open>(1, 0, 0)\<close>; the collaborators are the simplest ones: the
  trajectory updates change nothing, forward kinematics returns that frame, the contact
  point sits at the frame's origin and the solver answers with the force \<open>(0, 0, 1)\<close>.
\<close>

definition demo_frame :: Frame where
  "demo_frame = \<lparr>frame_M = ((1, 0, 0), (0, 1, 0), (0, 0, 1)), frame_p = (1, 0, 0)\<rparr>"

definition demo_matrix :: "nat \<Rightarrow> nat \<Rightarrow> real \<Rightarrow> MatrixXd" where
  "demo_matrix r c v = \<lparr>nrows = r, ncols = c, coeff = (\<lambda>i j. v)\<rparr>"

definition demo_trajectory :: "real \<Rightarrow> ItompCIOTrajectory" where
  "demo_trajectory activation =
     \<lparr>trajectory = demo_matrix 3 1 0, free_points = demo_matrix 3 1 0,
      free_vel_points = demo_matrix 3 1 0, contact_trajectory = demo_matrix 3 1 activation,
      num_contact_phases = 2, discretization = 1\<rparr>"

definition demo_collaborators :: collaborators where
  "demo_collaborators =
     \<lparr>cb_updateTrajectoryFromFreePoints = (\<lambda>T. T),
      cb_updateFromGroupTrajectory = (\<lambda>full group. full),
      cb_getTrajectoryPointKDL = (\<lambda>T i q. q),
      cb_JntToCartFull = (\<lambda>q old. ([], [], [demo_frame])),
      cb_JntToCartPartial = (\<lambda>q old. ([], [], [demo_frame])),
      cb_compute = (\<lambda>s. s),
      cb_initFromNodeHandle = (\<lambda>p. p),
      cb_getContactPhase = (\<lambda>T point. 0),
      cb_getContactValue = (\<lambda>T phase i. coeff (contact_trajectory T) phase i),
      cb_parentSegmentNumber = (\<lambda>i. 0),
      cb_getPosition = (\<lambda>i point frames. frame_p (frames ! point ! 0)),
      cb_updateContactViolationVector = (\<lambda>i a b d viol vel frames. (viol, vel)),
      cb_solveContactForces = (\<lambda>mu positions w activations frames i. (0, 0, 1))\<rparr>"

definition demo_manager :: "string \<Rightarrow> real \<Rightarrow> EvaluationManager" where
  "demo_manager gname activation =
     \<lparr>num_joints = 1, num_contacts = 1, num_points = 3, iteration = 1,
      planning_group =
        \<lparr>pg_name = gname, pg_num_joints = 1,
         group_joints = [\<lparr>has_joint_limits = True, joint_limit_min = - 1,
                          joint_limit_max = 1, kdl_joint_index = 0\<rparr>],
         pg_num_contacts = 1\<rparr>,
      group_trajectory = demo_trajectory activation,
      full_trajectory = demo_trajectory activation,
      segments = [\<lparr>seg_mass = 2, seg_cog = (0, 0, 0), seg_index = 0\<rparr>],
      planning_parameters = \<lparr>friction_coefficient = 1 / 2\<rparr>,
      costAccumulator = \<lparr>waypoint_cost = (\<lambda>i. 0), trajectory_cost = 0, feasible = True\<rparr>,
      kdl_joint_array = [0],
      joint_pos = [[], [], []], joint_axis = [[], [], []],
      segment_frames = [[demo_frame], [demo_frame], [demo_frame]],
      is_collision_free = False,
      state_is_in_collision = [False, False, False],
      state_validity = [True, True, True],
      trajectory_validity = False,
      last_trajectory_collision_free = False,
      totalMass = 2, masses = [2], numMassSegments = 1,
      gravityForce = (0, 0, - 1),
      CoMPositions = [Vector_Zero, Vector_Zero, Vector_Zero],
      wrenchSum = [Wrench_Zero, Wrench_Zero, Wrench_Zero],
      tmpContactViolationVector = [[(1, 0, 0, 0), (1, 0, 0, 0), (1, 0, 0, 0)]],
      tmpContactPointVelVector = [[(0, 0, 1 / 4), (0, 0, 1 / 4), (0, 0, 1 / 4)]],
      stateContactInvariantCost = [0, 0, 0],
      statePhysicsViolationCost = [0, 0, 0],
      stateCollisionCost = [0, 0, 0],
      planning_scene =
        \<lparr>world_objects = [],
         allowed_collision_matrix = [((''left_foot'', ''right_foot''), False)]\<rparr>,
      add_static_environment = True\<rparr>"

text \<open>The small problem after \<^verbatim>\<open>computeWrenchSum\<close>.\<close>

definition demo_balanced :: EvaluationManager where
  "demo_balanced = computeWrenchSum demo_collaborators (demo_manager ''whole_body'' 3)"

text \<open>Five waypoints of one joint limited to \<open>[-1, 1]\<close>, with the values 9, 5, -7, 9, 9.\<close>

definition demo_limits :: EvaluationManager where
  "demo_limits =
     (demo_manager ''whole_body'' 0)
       \<lparr>num_points := 5,
        group_trajectory := (demo_trajectory 0)
          \<lparr>trajectory := \<lparr>nrows = 5, ncols = 1,
               coeff = (\<lambda>i j. if i = 1 then 5 else if i = 2 then - 7 else 9)\<rparr>\<rparr>\<rparr>"

text \<open>Arguments of \<^verbatim>\<open>evaluate\<close> of the right shapes for the small problem.\<close>

definition demo_parameters :: MatrixXd where
  "demo_parameters = demo_matrix 1 1 (1 / 2)"

definition demo_contact_parameters :: MatrixXd where
  "demo_contact_parameters = demo_matrix 2 1 1"

definition demo_costs :: "real list" where
  "demo_costs = [7, 7, 7]"

text \<open>The small problem in iteration 0, with frames left from an earlier pose.\<close>

definition demo_first_iteration :: EvaluationManager where
  "demo_first_iteration =
     (demo_manager ''whole_body'' 3)
       \<lparr>iteration := 0,
        segment_frames := [[demo_frame\<lparr>frame_p := (0, 0, 0)\<rparr>], [demo_frame\<lparr>frame_p := (0, 0, 0)\<rparr>],
                           [demo_frame\<lparr>frame_p := (0, 0, 0)\<rparr>]]\<rparr>"



section \<open>Auxiliary facts\<close>

lemma for_range_nat: "for_range (int a) (int b - 1) = [a..<b]"
proof (induction b)
  case 0
  then show ?case by (simp add: for_range_def)
next
  case (Suc b)
  show ?case
  proof (cases "a \<le> b")
    case True
    then have "[int a..int b] = [int a..int b - 1] @ [int b]"
      by (intro upto_rec2) simp
    moreover have "map nat [int a..int b - 1] = [a..<b]"
      using Suc by (simp add: for_range_def)
    ultimately show ?thesis using True by (simp add: for_range_def)
  next
    case False
    then show ?thesis by (simp add: for_range_def)
  qed
qed

lemma for_range_interior: "for_range 1 (int n - 2) = [1..<n - 1]"
proof (cases "n = 0")
  case True
  then show ?thesis by (simp add: for_range_def)
next
  case False
  then have "for_range 1 (int n - 2) = for_range (int 1) (int (n - 1) - 1)"
    by (simp add: of_nat_diff)
  also have "\<dots> = [1..<n - 1]"
    by (rule for_range_nat)
  finally show ?thesis .
qed

lemma for_range_all: "for_range 0 (int n - 1) = [0..<n]"
  using for_range_nat [of 0 n] by simp

lemma fold_update_length:
  "length (fold (\<lambda>p xs. xs[p := f p]) ps xs) = length xs"
  by (induction ps arbitrary: xs) auto

lemma fold_update_nth:
  "q < length xs \<Longrightarrow>
   fold (\<lambda>p xs. xs[p := f p]) ps xs ! q = (if q \<in> set ps then f q else xs ! q)"
proof (induction ps arbitrary: xs)
  case Nil
  then show ?case by simp
next
  case (Cons p ps)
  then show ?case by (auto simp: nth_list_update)
qed

lemma foldl_add_sum:
  "foldl (\<lambda>acc i. acc + f i) a [0..<n] = a + (\<Sum>i<n. f i)"
  for a :: real
  by (induction n) simp_all

lemma sci_frame:
  "state_contact_invariant_cost cb
     (s\<lparr>stateContactInvariantCost := a, statePhysicsViolationCost := b\<rparr>) p
   = state_contact_invariant_cost cb s p"
  by (simp add: state_contact_invariant_cost_def contact_values_def)

lemma spv_frame:
  "state_physics_violation_cost cb
     (s\<lparr>stateContactInvariantCost := a, statePhysicsViolationCost := b\<rparr>) p
   = state_physics_violation_cost cb s p"
  by (simp add: state_physics_violation_cost_def contactWrench_def contact_forces_def
      contact_positions_def contact_values_def contact_parent_frames_def)

lemma stability_point_eq:
  "stability_point cb p s =
     s\<lparr>stateContactInvariantCost := (stateContactInvariantCost s)[p := ci_value cb s p],
       statePhysicsViolationCost := (statePhysicsViolationCost s)[p := pv_value cb s p]\<rparr>"
  by (simp add: stability_point_def ci_value_def pv_value_def dynamics_group_def)

lemma value_frame:
  "ci_value cb (s\<lparr>stateContactInvariantCost := a, statePhysicsViolationCost := b\<rparr>) = ci_value cb s"
  "pv_value cb (s\<lparr>stateContactInvariantCost := a, statePhysicsViolationCost := b\<rparr>) = pv_value cb s"
  by (simp_all add: fun_eq_iff ci_value_def pv_value_def sci_frame spv_frame dynamics_group_def)

lemma stability_fold:
  "fold (stability_point cb) ps s =
     s\<lparr>stateContactInvariantCost :=
         fold (\<lambda>p xs. xs[p := ci_value cb s p]) ps (stateContactInvariantCost s),
       statePhysicsViolationCost :=
         fold (\<lambda>p xs. xs[p := pv_value cb s p]) ps (statePhysicsViolationCost s)\<rparr>"
proof (induction ps arbitrary: s)
  case Nil
  show ?case by simp
next
  case (Cons p ps)
  define s1 where "s1 = stability_point cb p s"
  have s1: "s1 = s\<lparr>stateContactInvariantCost := (stateContactInvariantCost s)[p := ci_value cb s p],
       statePhysicsViolationCost := (statePhysicsViolationCost s)[p := pv_value cb s p]\<rparr>"
    unfolding s1_def by (rule stability_point_eq)
  have "fold (stability_point cb) (p # ps) s = fold (stability_point cb) ps s1"
    by (simp add: s1_def)
  also have "\<dots> = s1\<lparr>stateContactInvariantCost :=
         fold (\<lambda>p xs. xs[p := ci_value cb s1 p]) ps (stateContactInvariantCost s1),
       statePhysicsViolationCost :=
         fold (\<lambda>p xs. xs[p := pv_value cb s1 p]) ps (statePhysicsViolationCost s1)\<rparr>"
    by (rule Cons.IH)
  also have "\<dots> = s\<lparr>stateContactInvariantCost :=
         fold (\<lambda>p xs. xs[p := ci_value cb s p]) (p # ps) (stateContactInvariantCost s),
       statePhysicsViolationCost :=
         fold (\<lambda>p xs. xs[p := pv_value cb s p]) (p # ps) (statePhysicsViolationCost s)\<rparr>"
    by (simp add: s1 value_frame)
  finally show ?case .
qed

lemma computeStabilityCosts_eq:
  "computeStabilityCosts cb s =
     s\<lparr>stateContactInvariantCost :=
         fold (\<lambda>p xs. xs[p := ci_value cb s p]) [1..<num_points s - 1] (stateContactInvariantCost s),
       statePhysicsViolationCost :=
         fold (\<lambda>p xs. xs[p := pv_value cb s p]) [1..<num_points s - 1] (statePhysicsViolationCost s)\<rparr>"
  by (simp add: computeStabilityCosts_def for_range_interior stability_fold)

lemma ci_after:
  "point < length (stateContactInvariantCost s) \<Longrightarrow>
   stateContactInvariantCost (computeStabilityCosts cb s) ! point =
     (if 1 \<le> point \<and> point + 2 \<le> num_points s then ci_value cb s point
      else stateContactInvariantCost s ! point)"
  by (auto simp add: computeStabilityCosts_eq fold_update_nth)

lemma pv_after:
  "point < length (statePhysicsViolationCost s) \<Longrightarrow>
   statePhysicsViolationCost (computeStabilityCosts cb s) ! point =
     (if 1 \<le> point \<and> point + 2 \<le> num_points s then pv_value cb s point
      else statePhysicsViolationCost s ! point)"
  by (auto simp add: computeStabilityCosts_eq fold_update_nth)

lemma sci_sum:
  "state_contact_invariant_cost cb s point =
     (\<Sum>i<pg_num_contacts (planning_group s).
        cb_getContactValue cb (group_trajectory s)
          (cb_getContactPhase cb (group_trajectory s) point) i
        * (vec4_sqnorm (tmpContactViolationVector s ! i ! point)
           + 16 * vec_dot (tmpContactPointVelVector s ! i ! point)
                    (tmpContactPointVelVector s ! i ! point)))"
proof -
  let ?n = "pg_num_contacts (planning_group s)"
  let ?F = "\<lambda>i. cb_getContactValue cb (group_trajectory s)
          (cb_getContactPhase cb (group_trajectory s) point) i
        * (vec4_sqnorm (tmpContactViolationVector s ! i ! point)
           + 16 * vec_dot (tmpContactPointVelVector s ! i ! point)
                    (tmpContactPointVelVector s ! i ! point))"
  have "state_contact_invariant_cost cb s point = foldl (\<lambda>acc i. acc + ?F i) 0 [0..<?n]"
    unfolding state_contact_invariant_cost_def contact_values_def Let_def
    by (rule foldl_cong) simp_all
  then show ?thesis by (simp add: foldl_add_sum)
qed

text \<open>
  Claim C5. At an interior waypoint of a group that passes the name gate, the
  contact-invariant cost stored by \<^verbatim>\<open>computeStabilityCosts\<close> is the sum over the contacts
  of the activation times (the squared norm of the violation vector plus 16 times the
  squared norm of the contact-point velocity); so it is zero when every activation at
  the waypoint is zero, whatever the violation vectors are.
\<close>

theorem contact_invariant_cost_formula:
  assumes "pg_name (planning_group s) = ''lower_body'' \<or> pg_name (planning_group s) = ''whole_body''"
    and "1 \<le> point" and "point + 2 \<le> num_points s"
    and "length (stateContactInvariantCost s) = num_points s"
  shows "stateContactInvariantCost (computeStabilityCosts cb s) ! point =
           (\<Sum>i<pg_num_contacts (planning_group s).
              cb_getContactValue cb (group_trajectory s)
                (cb_getContactPhase cb (group_trajectory s) point) i
              * (vec4_sqnorm (tmpContactViolationVector s ! i ! point)
                 + 16 * vec_dot (tmpContactPointVelVector s ! i ! point)
                          (tmpContactPointVelVector s ! i ! point)))
         \<and> ((\<forall>i<pg_num_contacts (planning_group s).
                cb_getContactValue cb (group_trajectory s)
                  (cb_getContactPhase cb (group_trajectory s) point) i = 0)
              \<longrightarrow> stateContactInvariantCost (computeStabilityCosts cb s) ! point = 0)"
proof -
  have "stateContactInvariantCost (computeStabilityCosts cb s) ! point
          = state_contact_invariant_cost cb s point"
    using assms by (simp add: ci_after ci_value_def dynamics_group_def)
  then show ?thesis by (simp add: sci_sum)
qed

lemmas demo_defs = demo_manager_def demo_trajectory_def demo_matrix_def demo_collaborators_def
  demo_frame_def

theorem contact_invariant_cost_formula_witness:
  "stateContactInvariantCost
     (computeStabilityCosts demo_collaborators (demo_manager ''whole_body'' 3)) ! 1 = 6
   \<and> stateContactInvariantCost
     (computeStabilityCosts demo_collaborators (demo_manager ''lower_body'' 0)) ! 1 = 0
   \<and> vec4_sqnorm (tmpContactViolationVector (demo_manager ''lower_body'' 0) ! 0 ! 1) = 1"
  using contact_invariant_cost_formula [of "demo_manager ''whole_body'' 3" 1 demo_collaborators]
    contact_invariant_cost_formula [of "demo_manager ''lower_body'' 0" 1 demo_collaborators]
  by (simp add: demo_defs)

lemma num_points_after [simp]: "num_points (computeStabilityCosts cb s) = num_points s"
  by (simp add: computeStabilityCosts_eq)

lemma mass_fold_frame:
  "num_points (fold mass_step segs s) = num_points s"
  "num_contacts (fold mass_step segs s) = num_contacts s"
  "stateContactInvariantCost (fold mass_step segs s) = stateContactInvariantCost s"
  "statePhysicsViolationCost (fold mass_step segs s) = statePhysicsViolationCost s"
  "planning_group (fold mass_step segs s) = planning_group s"
  by (induction segs arbitrary: s) (simp_all add: mass_step_def Let_def)

lemma computeMass_frame:
  "num_points (computeMassAndGravityForce u s) = num_points s"
  "stateContactInvariantCost (computeMassAndGravityForce u s) = stateContactInvariantCost s"
  "statePhysicsViolationCost (computeMassAndGravityForce u s) = statePhysicsViolationCost s"
  "planning_group (computeMassAndGravityForce u s) = planning_group s"
  "gravityForce (computeMassAndGravityForce u s) = (0, 0, - 1)"
  by (simp_all add: computeMassAndGravityForce_def Let_def mass_fold_frame)

lemma initialize_costs:
  "num_points (initialize u s) = num_points s"
  "stateContactInvariantCost (initialize u s) = resize (num_points s) 0 (stateContactInvariantCost s)"
  "statePhysicsViolationCost (initialize u s) = resize (num_points s) 0 (statePhysicsViolationCost s)"
  by (simp_all add: initialize_def Let_def computeMass_frame)

text \<open>
  Claim C6. When the group is neither \<^verbatim>\<open>lower_body\<close> nor \<^verbatim>\<open>whole_body\<close>, both costs are
  zero at every interior waypoint and \<^verbatim>\<open>computeWrenchSum\<close> returns without changing
  anything. Outside the interior range the costs are zero as well: \<^verbatim>\<open>initialize\<close>
  sizes the freshly constructed buffers with zeros, and \<^verbatim>\<open>computeStabilityCosts\<close> never
  writes there.
\<close>

theorem non_dynamics_group_costs_zero:
  assumes "length (stateContactInvariantCost s) = num_points s"
    and "length (statePhysicsViolationCost s) = num_points s"
  shows "(\<not> dynamics_group s \<longrightarrow>
            (\<forall>point. 1 \<le> point \<and> point + 2 \<le> num_points s \<longrightarrow>
               stateContactInvariantCost (computeStabilityCosts cb s) ! point = 0
               \<and> statePhysicsViolationCost (computeStabilityCosts cb s) ! point = 0)
            \<and> computeWrenchSum cb s = s)
         \<and> (boundary_costs_zero s \<longrightarrow> boundary_costs_zero (computeStabilityCosts cb s))
         \<and> (stateContactInvariantCost s0 = [] \<and> statePhysicsViolationCost s0 = [] \<longrightarrow>
              boundary_costs_zero (initialize uninit s0))"
proof (intro conjI impI allI)
  fix point
  assume "\<not> dynamics_group s" and "1 \<le> point \<and> point + 2 \<le> num_points s"
  then show "stateContactInvariantCost (computeStabilityCosts cb s) ! point = 0"
    and "statePhysicsViolationCost (computeStabilityCosts cb s) ! point = 0"
    using assms by (simp_all add: ci_after pv_after ci_value_def pv_value_def)
next
  assume "\<not> dynamics_group s"
  then show "computeWrenchSum cb s = s"
    by (simp add: computeWrenchSum_def dynamics_group_def)
next
  assume "boundary_costs_zero s"
  then show "boundary_costs_zero (computeStabilityCosts cb s)"
    using assms
    by (simp add: boundary_costs_zero_def ci_after pv_after)
next
  assume "stateContactInvariantCost s0 = [] \<and> statePhysicsViolationCost s0 = []"
  then show "boundary_costs_zero (initialize uninit s0)"
    by (simp add: boundary_costs_zero_def initialize_costs resize_def)
qed

theorem non_dynamics_group_costs_zero_witness:
  "\<not> dynamics_group (demo_manager ''left_arm'' 3)
   \<and> stateContactInvariantCost
        (computeStabilityCosts demo_collaborators (demo_manager ''left_arm'' 3)) ! 1 = 0
   \<and> statePhysicsViolationCost
        (computeStabilityCosts demo_collaborators (demo_manager ''left_arm'' 3)) ! 1 = 0
   \<and> computeWrenchSum demo_collaborators (demo_manager ''left_arm'' 3) = demo_manager ''left_arm'' 3
   \<and> boundary_costs_zero (demo_manager ''left_arm'' 3)
   \<and> boundary_costs_zero (computeStabilityCosts demo_collaborators (demo_manager ''left_arm'' 3))
   \<and> boundary_costs_zero
        (initialize (0, 0, 0, 0)
          ((demo_manager ''left_arm'' 3)
             \<lparr>stateContactInvariantCost := [], statePhysicsViolationCost := []\<rparr>))"
proof -
  have len: "length (stateContactInvariantCost (demo_manager ''left_arm'' 3))
               = num_points (demo_manager ''left_arm'' 3)"
    "length (statePhysicsViolationCost (demo_manager ''left_arm'' 3))
               = num_points (demo_manager ''left_arm'' 3)"
    by (simp_all add: demo_manager_def)
  have ng: "\<not> dynamics_group (demo_manager ''left_arm'' 3)"
    by (simp add: dynamics_group_def demo_manager_def)
  have bz: "boundary_costs_zero (demo_manager ''left_arm'' 3)"
    by (simp add: boundary_costs_zero_def demo_manager_def less_Suc_eq
        numeral_3_eq_3)
  show ?thesis
    using non_dynamics_group_costs_zero [OF len, of demo_collaborators
        "(demo_manager ''left_arm'' 3)
             \<lparr>stateContactInvariantCost := [], statePhysicsViolationCost := []\<rparr>"
        "(0, 0, 0, 0)"] ng bz
    by (simp add: demo_manager_def)
qed

lemma updateCoM_eq:
  "updateCoM p s = s\<lparr>CoMPositions := (CoMPositions s)[p := center_of_mass s p]\<rparr>"
  by (simp add: updateCoM_def center_of_mass_def)

lemma center_of_mass_frame:
  "center_of_mass (s\<lparr>CoMPositions := c\<rparr>) = center_of_mass s"
  by (simp add: fun_eq_iff center_of_mass_def)

lemma updateCoM_fold:
  "fold updateCoM ps s =
     s\<lparr>CoMPositions := fold (\<lambda>p xs. xs[p := center_of_mass s p]) ps (CoMPositions s)\<rparr>"
proof (induction ps arbitrary: s)
  case Nil
  show ?case by simp
next
  case (Cons p ps)
  define s1 where "s1 = updateCoM p s"
  have s1: "s1 = s\<lparr>CoMPositions := (CoMPositions s)[p := center_of_mass s p]\<rparr>"
    unfolding s1_def by (rule updateCoM_eq)
  have "fold updateCoM (p # ps) s = fold updateCoM ps s1"
    by (simp add: s1_def)
  also have "\<dots> = s1\<lparr>CoMPositions :=
      fold (\<lambda>p xs. xs[p := center_of_mass s1 p]) ps (CoMPositions s1)\<rparr>"
    by (rule Cons.IH)
  also have "\<dots> = s\<lparr>CoMPositions :=
      fold (\<lambda>p xs. xs[p := center_of_mass s p]) (p # ps) (CoMPositions s)\<rparr>"
    by (simp add: s1 center_of_mass_frame)
  finally show ?case .
qed

lemma wrench_value_frame: "wrench_value (s\<lparr>wrenchSum := w\<rparr>) = wrench_value s"
  by (simp add: fun_eq_iff wrench_value_def)

lemma wrench_fold:
  "fold wrench_point ps s =
     s\<lparr>wrenchSum := fold (\<lambda>p xs. xs[p := wrench_value s p]) ps (wrenchSum s)\<rparr>"
proof (induction ps arbitrary: s)
  case Nil
  show ?case by simp
next
  case (Cons p ps)
  define s1 where "s1 = wrench_point p s"
  have s1: "s1 = s\<lparr>wrenchSum := (wrenchSum s)[p := wrench_value s p]\<rparr>"
    unfolding s1_def by (simp add: wrench_point_def wrench_value_def)
  have "fold wrench_point (p # ps) s = fold wrench_point ps s1"
    by (simp add: s1_def)
  also have "\<dots> = s1\<lparr>wrenchSum :=
      fold (\<lambda>p xs. xs[p := wrench_value s1 p]) ps (wrenchSum s1)\<rparr>"
    by (rule Cons.IH)
  also have "\<dots> = s\<lparr>wrenchSum :=
      fold (\<lambda>p xs. xs[p := wrench_value s p]) (p # ps) (wrenchSum s)\<rparr>"
    by (simp add: s1 wrench_value_frame)
  finally show ?case .
qed

lemma contact_violation_fold_frame:
  "wrenchSum (fold (contact_violation_update cb) is s) = wrenchSum s"
  "CoMPositions (fold (contact_violation_update cb) is s) = CoMPositions s"
  by (induction "is" arbitrary: s) (simp_all add: contact_violation_update_def Let_def)

lemma computeWrenchSum_CoM:
  assumes "dynamics_group s"
  shows "CoMPositions (computeWrenchSum cb s) =
           fold (\<lambda>p xs. xs[p := center_of_mass s p])
             (if iteration s = 0 then [0..<num_points s] else [1..<num_points s - 1])
             (CoMPositions s)"
  using assms
  by (auto simp add: computeWrenchSum_def dynamics_group_def Let_def contact_violation_fold_frame
      wrench_fold updateCoM_fold for_range_interior for_range_all)

lemma computeWrenchSum_wrench:
  assumes "dynamics_group s"
  shows "wrenchSum (computeWrenchSum cb s) =
           fold (\<lambda>p xs. xs[p :=
                  \<lparr>force = gravityForce s,
                   torque = vec_cross (CoMPositions (computeWrenchSum cb s) ! p) (gravityForce s)\<rparr>])
             [1..<num_points s - 1] (wrenchSum s)"
  using assms
  by (auto simp add: computeWrenchSum_def dynamics_group_def Let_def contact_violation_fold_frame
      wrench_fold updateCoM_fold for_range_interior for_range_all wrench_value_def)

lemma vec_cross_gravity: "vec_cross c (0, 0, - 1) = (case c of (cx, cy, cz) \<Rightarrow> (- cy, cx, 0))"
  by (cases c) simp

lemma torque_about_origin: "torque_about Vector_Zero p f = vec_cross p f"
  by (cases p; cases f) (simp add: torque_about_def Vector_Zero_def)

lemma contact_violation_fold_frame2:
  "planning_group (fold (contact_violation_update cb) is s) = planning_group s"
  "group_trajectory (fold (contact_violation_update cb) is s) = group_trajectory s"
  "planning_parameters (fold (contact_violation_update cb) is s) = planning_parameters s"
  "segment_frames (fold (contact_violation_update cb) is s) = segment_frames s"
  "num_points (fold (contact_violation_update cb) is s) = num_points s"
  "stateContactInvariantCost (fold (contact_violation_update cb) is s) = stateContactInvariantCost s"
  "statePhysicsViolationCost (fold (contact_violation_update cb) is s) = statePhysicsViolationCost s"
  by (induction "is" arbitrary: s) (simp_all add: contact_violation_update_def Let_def)

lemma computeWrenchSum_frame:
  "planning_group (computeWrenchSum cb s) = planning_group s"
  "group_trajectory (computeWrenchSum cb s) = group_trajectory s"
  "planning_parameters (computeWrenchSum cb s) = planning_parameters s"
  "segment_frames (computeWrenchSum cb s) = segment_frames s"
  "num_points (computeWrenchSum cb s) = num_points s"
  "stateContactInvariantCost (computeWrenchSum cb s) = stateContactInvariantCost s"
  "statePhysicsViolationCost (computeWrenchSum cb s) = statePhysicsViolationCost s"
  by (simp_all add: computeWrenchSum_def Let_def contact_violation_fold_frame2
      wrench_fold updateCoM_fold)

lemma wrench_at_interior:
  assumes "dynamics_group s" and "1 \<le> point" and "point + 2 \<le> num_points s"
    and "length (wrenchSum s) = num_points s" and "length (CoMPositions s) = num_points s"
  shows "CoMPositions (computeWrenchSum cb s) ! point = center_of_mass s point"
    and "wrenchSum (computeWrenchSum cb s) ! point =
       \<lparr>force = gravityForce s, torque = vec_cross (center_of_mass s point) (gravityForce s)\<rparr>"
proof -
  from assms have pin: "point \<in> set [1..<num_points s - 1]" "point \<in> set [0..<num_points s]"
    and plt: "point < length (CoMPositions s)" "point < length (wrenchSum s)"
    by auto
  show com: "CoMPositions (computeWrenchSum cb s) ! point = center_of_mass s point"
    using assms(1) pin by (simp add: computeWrenchSum_CoM fold_update_nth [OF plt(1)])
  show "wrenchSum (computeWrenchSum cb s) ! point =
       \<lparr>force = gravityForce s, torque = vec_cross (center_of_mass s point) (gravityForce s)\<rparr>"
    using assms(1) pin by (simp add: computeWrenchSum_wrench fold_update_nth [OF plt(2)] com)
qed

text \<open>
  Claim C7, as amended. The gravity force that \<^verbatim>\<open>computeMassAndGravityForce\<close> leaves is
  \<open>(0, 0, -1)\<close> whatever the segments' masses are. For a group that passes the name gate,
  at every interior waypoint the reference wrench has that force, and its torque is the
  cross product of the waypoint's centre of mass with it: the torque, about the origin of
  the world frame, of gravity acting at the centre of mass.
\<close>

theorem reference_wrench:
  "gravityForce (computeMassAndGravityForce uninit s0) = (0, 0, - 1)
   \<and> (dynamics_group s \<and> gravityForce s = (0, 0, - 1)
        \<and> 1 \<le> point \<and> point + 2 \<le> num_points s
        \<and> length (wrenchSum s) = num_points s \<and> length (CoMPositions s) = num_points s
      \<longrightarrow> force (wrenchSum (computeWrenchSum cb s) ! point) = (0, 0, - 1)
          \<and> CoMPositions (computeWrenchSum cb s) ! point = center_of_mass s point
          \<and> torque (wrenchSum (computeWrenchSum cb s) ! point) =
               torque_about Vector_Zero (center_of_mass s point) (0, 0, - 1)
          \<and> torque (wrenchSum (computeWrenchSum cb s) ! point) =
               (case center_of_mass s point of (cx, cy, cz) \<Rightarrow> (- cy, cx, 0)))"
proof (intro conjI impI)
  show "gravityForce (computeMassAndGravityForce uninit s0) = (0, 0, - 1)"
    by (rule computeMass_frame)
next
  assume a: "dynamics_group s \<and> gravityForce s = (0, 0, - 1)
        \<and> 1 \<le> point \<and> point + 2 \<le> num_points s
        \<and> length (wrenchSum s) = num_points s \<and> length (CoMPositions s) = num_points s"
  then have w: "wrenchSum (computeWrenchSum cb s) ! point =
       \<lparr>force = (0, 0, - 1), torque = vec_cross (center_of_mass s point) (0, 0, - 1)\<rparr>"
    using wrench_at_interior(2) [of s point cb] by simp
  show "CoMPositions (computeWrenchSum cb s) ! point = center_of_mass s point"
    using a by (simp add: wrench_at_interior(1))
  show "force (wrenchSum (computeWrenchSum cb s) ! point) = (0, 0, - 1)"
    by (simp add: w)
  show "torque (wrenchSum (computeWrenchSum cb s) ! point) =
               torque_about Vector_Zero (center_of_mass s point) (0, 0, - 1)"
    by (simp add: w torque_about_origin)
  show "torque (wrenchSum (computeWrenchSum cb s) ! point) =
               (case center_of_mass s point of (cx, cy, cz) \<Rightarrow> (- cy, cx, 0))"
    by (simp add: w vec_cross_gravity)
qed

lemma demo_center_of_mass: "center_of_mass (demo_manager g a) (Suc 0) = (1, 0, 0)"
  by (simp add: center_of_mass_def demo_manager_def demo_frame_def updateCoM_segment_def
      frame_apply_def Vector_Zero_def)

lemma demo_dynamics:
  "dynamics_group (demo_manager ''whole_body'' a)"
  "dynamics_group (demo_manager ''lower_body'' a)"
  "\<not> dynamics_group (demo_manager ''left_arm'' a)"
  by (simp_all add: dynamics_group_def demo_manager_def)

lemma demo_wrench:
  "CoMPositions (computeWrenchSum demo_collaborators (demo_manager ''whole_body'' a)) ! Suc 0
     = (1, 0, 0)"
  "wrenchSum (computeWrenchSum demo_collaborators (demo_manager ''whole_body'' a)) ! Suc 0
     = \<lparr>force = (0, 0, - 1), torque = (0, 1, 0)\<rparr>"
proof -
  have h: "(1::nat) \<le> 1" "1 + 2 \<le> num_points (demo_manager ''whole_body'' a)"
    "length (wrenchSum (demo_manager ''whole_body'' a)) = num_points (demo_manager ''whole_body'' a)"
    "length (CoMPositions (demo_manager ''whole_body'' a)) = num_points (demo_manager ''whole_body'' a)"
    by (simp_all add: demo_manager_def)
  have g: "gravityForce (demo_manager ''whole_body'' a) = (0, 0, - 1)"
    by (simp add: demo_manager_def)
  show "CoMPositions (computeWrenchSum demo_collaborators (demo_manager ''whole_body'' a)) ! Suc 0
     = (1, 0, 0)"
    using wrench_at_interior(1) [OF demo_dynamics(1) h, of demo_collaborators]
    by (simp add: demo_center_of_mass)
  show "wrenchSum (computeWrenchSum demo_collaborators (demo_manager ''whole_body'' a)) ! Suc 0
     = \<lparr>force = (0, 0, - 1), torque = (0, 1, 0)\<rparr>"
    using wrench_at_interior(2) [OF demo_dynamics(1) h, of demo_collaborators]
    by (simp add: demo_center_of_mass g)
qed

theorem reference_wrench_witness:
  "dynamics_group (demo_manager ''whole_body'' 3)
   \<and> force (wrenchSum (computeWrenchSum demo_collaborators (demo_manager ''whole_body'' 3)) ! 1)
        = (0, 0, - 1)
   \<and> CoMPositions (computeWrenchSum demo_collaborators (demo_manager ''whole_body'' 3)) ! 1
        = (1, 0, 0)
   \<and> torque (wrenchSum (computeWrenchSum demo_collaborators (demo_manager ''whole_body'' 3)) ! 1)
        = (0, 1, 0)"
proof -
  have h: "dynamics_group (demo_manager ''whole_body'' 3)
      \<and> gravityForce (demo_manager ''whole_body'' 3) = (0, 0, - 1)
      \<and> (1::nat) \<le> 1 \<and> 1 + 2 \<le> num_points (demo_manager ''whole_body'' 3)
      \<and> length (wrenchSum (demo_manager ''whole_body'' 3)) = num_points (demo_manager ''whole_body'' 3)
      \<and> length (CoMPositions (demo_manager ''whole_body'' 3)) = num_points (demo_manager ''whole_body'' 3)"
    by (simp add: dynamics_group_def demo_manager_def)
  show ?thesis
    using reference_wrench [of "(0, 0, 0, 0)" "demo_manager ''whole_body'' 3"
        "demo_manager ''whole_body'' 3" 1 demo_collaborators] h
    by (simp add: demo_center_of_mass torque_about_origin)
qed

theorem reference_wrench_counterexample:
  "\<not> claimed_reference_wrench demo_collaborators (demo_manager ''left_arm'' 3) 1
   \<and> \<not> claimed_reference_wrench demo_collaborators (demo_manager ''whole_body'' 3) 1"
proof -
  have "computeWrenchSum demo_collaborators (demo_manager ''left_arm'' 3)
          = demo_manager ''left_arm'' 3"
    by (simp add: computeWrenchSum_def demo_manager_def)
  then have "\<not> claimed_reference_wrench demo_collaborators (demo_manager ''left_arm'' 3) 1"
    by (simp add: claimed_reference_wrench_def) (simp add: demo_manager_def Wrench_Zero_def Vector_Zero_def)
  moreover have "\<not> claimed_reference_wrench demo_collaborators (demo_manager ''whole_body'' 3) 1"
    by (simp add: claimed_reference_wrench_def demo_wrench torque_about_def)
  ultimately show ?thesis by simp
qed

lemma wrench_norm_zero: "wrench_norm w = 0 \<longleftrightarrow> w = Wrench_Zero"
proof (cases w)
  case (fields f t)
  obtain fx fy fz where f: "f = (fx, fy, fz)" by (cases f)
  obtain tx ty tz where t: "t = (tx, ty, tz)" by (cases t)
  show ?thesis
    by (simp add: wrench_norm_def fields f t Wrench_Zero_def Vector_Zero_def add_nonneg_eq_0_iff)
qed

lemma wrench_sub_neg: "wrench_sub a (wrench_neg b) = wrench_add a b"
proof -
  have v: "vec_sub x (vec_neg y) = vec_add x y" for x y
    by (cases x; cases y) simp
  show ?thesis by (simp add: wrench_sub_def wrench_neg_def wrench_add_def v)
qed

lemma wrench_add_zero_iff: "wrench_add a b = Wrench_Zero \<longleftrightarrow> a = wrench_neg b"
proof -
  have v: "vec_add x y = Vector_Zero \<longleftrightarrow> x = vec_neg y" for x y
    by (cases x; cases y) (auto simp add: Vector_Zero_def)
  show ?thesis
    by (cases a; cases b) (simp add: wrench_add_def Wrench_Zero_def wrench_neg_def v)
qed

lemma wrench_foldl:
  "foldl (\<lambda>w i. \<lparr>force = vec_add (force w) (F i),
                  torque = vec_add (torque w) (vec_cross (P i) (F i))\<rparr>) w0 [0..<n]
   = \<lparr>force = foldl vec_add (force w0) (map F [0..<n]),
      torque = foldl vec_add (torque w0) (map (\<lambda>i. vec_cross (P i) (F i)) [0..<n])\<rparr>"
  by (induction n) simp_all

lemma map2_map_map: "map2 f (map g xs) (map h xs) = map (\<lambda>i. f (g i) (h i)) xs"
  by (induction xs) simp_all

lemma contactWrench_sums:
  "contactWrench cb s point =
     \<lparr>force = vec_sum (contact_forces cb s point),
      torque = vec_sum (map2 vec_cross (contact_positions cb s point) (contact_forces cb s point))\<rparr>"
proof -
  let ?n = "pg_num_contacts (planning_group s)"
  let ?F = "cb_solveContactForces cb (friction_coefficient (planning_parameters s))
            (contact_positions cb s point) (wrenchSum s ! point) (contact_values cb s point)
            (contact_parent_frames cb s point)"
  let ?P = "\<lambda>i. cb_getPosition cb i point (segment_frames s)"
  have fs: "contact_forces cb s point = map ?F [0..<?n]"
    by (simp add: contact_forces_def)
  have ps: "contact_positions cb s point = map ?P [0..<?n]"
    by (simp add: contact_positions_def)
  have "contactWrench cb s point =
      foldl (\<lambda>w i. \<lparr>force = vec_add (force w) (?F i),
                  torque = vec_add (torque w) (vec_cross (?P i) (?F i))\<rparr>) Wrench_Zero [0..<?n]"
    unfolding contactWrench_def
    by (rule foldl_cong) (simp_all add: contact_forces_def contact_positions_def)
  also have "\<dots> = \<lparr>force = vec_sum (map ?F [0..<?n]),
      torque = vec_sum (map (\<lambda>i. vec_cross (?P i) (?F i)) [0..<?n])\<rparr>"
    by (simp add: wrench_foldl vec_sum_def Wrench_Zero_def)
  also have "\<dots> = \<lparr>force = vec_sum (contact_forces cb s point),
      torque = vec_sum (map2 vec_cross (contact_positions cb s point) (contact_forces cb s point))\<rparr>"
    unfolding fs ps map2_map_map ..
  finally show ?thesis .
qed

lemma spv_com_frame:
  "state_physics_violation_cost cb (s\<lparr>CoMPositions := c\<rparr>) p = state_physics_violation_cost cb s p"
  by (simp add: state_physics_violation_cost_def contactWrench_def contact_forces_def
      contact_positions_def contact_values_def contact_parent_frames_def)

lemma pv_at_interior:
  assumes "dynamics_group s" and "1 \<le> point" and "point + 2 \<le> num_points s"
    and "length (statePhysicsViolationCost s) = num_points s"
  shows "statePhysicsViolationCost (computeStabilityCosts cb s) ! point =
           state_physics_violation_cost cb s point"
  using assms by (simp add: pv_after pv_value_def)

text \<open>
  Claim C1, as amended. At an interior waypoint of a group that passes the name gate, the
  physics-violation cost is the Euclidean norm of the residual between the contact wrench
  and the negated reference wrench, where the contact wrench is the sum of the solved
  forces and the sum of their torques about the origin of the world frame (the contact
  positions are used as they are, the centre of mass is not subtracted); it is zero
  exactly when that contact wrench is the negated reference wrench, and it does not
  depend on the stored centres of mass.
\<close>

theorem physics_violation_cost_formula:
  assumes "dynamics_group s" and "1 \<le> point" and "point + 2 \<le> num_points s"
    and "length (statePhysicsViolationCost s) = num_points s"
  shows "statePhysicsViolationCost (computeStabilityCosts cb s) ! point =
           wrench_norm (wrench_sub
             \<lparr>force = vec_sum (contact_forces cb s point),
              torque = vec_sum (map2 (torque_about Vector_Zero)
                          (contact_positions cb s point) (contact_forces cb s point))\<rparr>
             (wrench_neg (wrenchSum s ! point)))
         \<and> (statePhysicsViolationCost (computeStabilityCosts cb s) ! point = 0 \<longleftrightarrow>
              \<lparr>force = vec_sum (contact_forces cb s point),
               torque = vec_sum (map2 (torque_about Vector_Zero)
                          (contact_positions cb s point) (contact_forces cb s point))\<rparr>
              = wrench_neg (wrenchSum s ! point))
         \<and> statePhysicsViolationCost (computeStabilityCosts cb (s\<lparr>CoMPositions := c\<rparr>)) ! point
             = statePhysicsViolationCost (computeStabilityCosts cb s) ! point"
proof -
  have o: "torque_about Vector_Zero = vec_cross"
    by (simp add: fun_eq_iff torque_about_origin)
  have pv: "statePhysicsViolationCost (computeStabilityCosts cb s) ! point =
           state_physics_violation_cost cb s point"
    using assms by (rule pv_at_interior)
  have pv': "statePhysicsViolationCost (computeStabilityCosts cb (s\<lparr>CoMPositions := c\<rparr>)) ! point =
           state_physics_violation_cost cb (s\<lparr>CoMPositions := c\<rparr>) point"
    using assms by (intro pv_at_interior) (simp_all add: dynamics_group_def)
  have eq: "state_physics_violation_cost cb s point =
      wrench_norm (wrench_add (contactWrench cb s point) (wrenchSum s ! point))"
    by (simp add: state_physics_violation_cost_def Let_def)
  show ?thesis
    unfolding pv pv' spv_com_frame eq o contactWrench_sums [symmetric] wrench_sub_neg
    by (simp add: wrench_norm_zero wrench_add_zero_iff)
qed

lemma demo_balanced_fields:
  "dynamics_group demo_balanced"
  "num_points demo_balanced = 3"
  "length (statePhysicsViolationCost demo_balanced) = 3"
  "wrenchSum demo_balanced ! Suc 0 = \<lparr>force = (0, 0, - 1), torque = (0, 1, 0)\<rparr>"
  "CoMPositions demo_balanced ! Suc 0 = (1, 0, 0)"
  "contact_positions demo_collaborators demo_balanced (Suc 0) = [(1, 0, 0)]"
  "contact_forces demo_collaborators demo_balanced (Suc 0) = [(0, 0, 1)]"
  by (simp_all add: demo_balanced_def dynamics_group_def computeWrenchSum_frame demo_wrench
      contact_positions_def contact_forces_def)
    (simp_all add: demo_manager_def demo_collaborators_def demo_frame_def)

theorem physics_violation_cost_formula_witness:
  "dynamics_group demo_balanced
   \<and> statePhysicsViolationCost (computeStabilityCosts demo_collaborators demo_balanced) ! 1 = 0
   \<and> \<lparr>force = vec_sum (contact_forces demo_collaborators demo_balanced 1),
       torque = vec_sum (map2 (torque_about Vector_Zero)
                  (contact_positions demo_collaborators demo_balanced 1)
                  (contact_forces demo_collaborators demo_balanced 1))\<rparr>
      = wrench_neg (wrenchSum demo_balanced ! 1)"
proof -
  have h: "(1::nat) \<le> 1" "1 + 2 \<le> num_points demo_balanced"
    "length (statePhysicsViolationCost demo_balanced) = num_points demo_balanced"
    by (simp_all add: demo_balanced_fields)
  have w: "\<lparr>force = vec_sum (contact_forces demo_collaborators demo_balanced 1),
       torque = vec_sum (map2 (torque_about Vector_Zero)
                  (contact_positions demo_collaborators demo_balanced 1)
                  (contact_forces demo_collaborators demo_balanced 1))\<rparr>
      = wrench_neg (wrenchSum demo_balanced ! 1)"
    by (simp add: demo_balanced_fields vec_sum_def Vector_Zero_def torque_about_def wrench_neg_def)
  show ?thesis
    using physics_violation_cost_formula [OF demo_balanced_fields(1) h, of demo_collaborators
        "CoMPositions demo_balanced"] w
    by (simp add: demo_balanced_fields(1))
qed

theorem physics_violation_cost_counterexample:
  "statePhysicsViolationCost (computeStabilityCosts demo_collaborators demo_balanced) ! 1
     \<noteq> spec_physics_violation_cost demo_collaborators demo_balanced 1"
proof -
  have h: "(1::nat) \<le> 1" "1 + 2 \<le> num_points demo_balanced"
    "length (statePhysicsViolationCost demo_balanced) = num_points demo_balanced"
    by (simp_all add: demo_balanced_fields)
  have "statePhysicsViolationCost (computeStabilityCosts demo_collaborators demo_balanced) ! 1
          = state_physics_violation_cost demo_collaborators demo_balanced 1"
    using demo_balanced_fields(1) h by (rule pv_at_interior)
  also have "\<dots> = 0"
    by (simp add: state_physics_violation_cost_def Let_def contactWrench_sums demo_balanced_fields
        vec_sum_def Vector_Zero_def wrench_add_def wrench_norm_def)
  finally have code: "statePhysicsViolationCost
      (computeStabilityCosts demo_collaborators demo_balanced) ! 1 = 0" .
  have spec: "spec_physics_violation_cost demo_collaborators demo_balanced 1 = 1"
    by (simp add: spec_physics_violation_cost_def spec_contact_wrench_about_com_def
        demo_balanced_fields vec_sum_def Vector_Zero_def torque_about_def wrench_sub_def
        wrench_neg_def wrench_norm_def)
  show ?thesis unfolding code spec by simp
qed

lemma for_range_free: "for_range 1 (int n - 3) = [1..<n - 2]"
proof (cases "n \<le> 1")
  case True
  then have "int n - 3 < 1" by simp
  then show ?thesis using True by (simp add: for_range_def)
next
  case False
  then have "for_range 1 (int n - 3) = for_range (int 1) (int (n - 2) - 1)"
    by (simp add: of_nat_diff)
  also have "\<dots> = [1..<n - 2]"
    by (rule for_range_nat)
  finally show ?thesis .
qed

lemma limit_point_coeff:
  "coeff (limit_point j hi lo i T) i' j' =
     (if i' = i \<and> j' = j then clamp lo hi (coeff T i j) else coeff T i' j')"
  by (simp add: limit_point_def set_coeff_def clamp_def)

lemma limit_point_dims:
  "nrows (limit_point j hi lo i T) = nrows T" "ncols (limit_point j hi lo i T) = ncols T"
  by (simp_all add: limit_point_def set_coeff_def)

lemma limit_fold_coeff:
  "distinct is \<Longrightarrow>
   coeff (fold (limit_point j hi lo) is T) i' j' =
     (if i' \<in> set is \<and> j' = j then clamp lo hi (coeff T i' j) else coeff T i' j')"
proof (induction "is" arbitrary: T)
  case Nil
  show ?case by simp
next
  case (Cons i "is")
  then show ?case by (auto simp add: limit_point_coeff)
qed

lemma limit_fold_dims:
  "nrows (fold (limit_point j hi lo) is T) = nrows T"
  "ncols (fold (limit_point j hi lo) is T) = ncols T"
  by (induction "is" arbitrary: T) (simp_all add: limit_point_dims)

lemma limit_joint_coeff:
  "coeff (limit_joint s j T) i' j' =
     (if j' = j \<and> has_joint_limits (group_joints (planning_group s) ! j)
         \<and> 1 \<le> i' \<and> i' + 3 \<le> num_points s
      then clamp (joint_limit_min (group_joints (planning_group s) ! j))
             (joint_limit_max (group_joints (planning_group s) ! j)) (coeff T i' j)
      else coeff T i' j')"
  by (auto simp add: limit_joint_def Let_def for_range_free limit_fold_coeff)

lemma limit_joint_dims:
  "nrows (limit_joint s j T) = nrows T" "ncols (limit_joint s j T) = ncols T"
  by (simp_all add: limit_joint_def Let_def limit_fold_dims)

lemma limit_joints_coeff:
  "distinct js \<Longrightarrow>
   coeff (fold (limit_joint s) js T) i j =
     (if j \<in> set js \<and> has_joint_limits (group_joints (planning_group s) ! j)
         \<and> 1 \<le> i \<and> i + 3 \<le> num_points s
      then clamp (joint_limit_min (group_joints (planning_group s) ! j))
             (joint_limit_max (group_joints (planning_group s) ! j)) (coeff T i j)
      else coeff T i j)"
proof (induction js arbitrary: T)
  case Nil
  show ?case by simp
next
  case (Cons a js)
  then show ?case by (auto simp add: limit_joint_coeff)
qed

lemma limit_joints_dims:
  "nrows (fold (limit_joint s) js T) = nrows T"
  "ncols (fold (limit_joint s) js T) = ncols T"
  by (induction js arbitrary: T) (simp_all add: limit_joint_dims)

lemma handleJointLimits_coeff:
  "coeff (trajectory (group_trajectory (handleJointLimits s))) i j =
     (if limited_entry s i j
      then clamp (joint_limit_min (group_joints (planning_group s) ! j))
             (joint_limit_max (group_joints (planning_group s) ! j))
             (coeff (trajectory (group_trajectory s)) i j)
      else coeff (trajectory (group_trajectory s)) i j)"
  by (simp add: handleJointLimits_def limit_joints_coeff limited_entry_def)

lemma matrix_eqI:
  "nrows A = nrows B \<Longrightarrow> ncols A = ncols B \<Longrightarrow> (\<And>i j. coeff A i j = coeff B i j) \<Longrightarrow>
   MatrixXd.more A = MatrixXd.more B \<Longrightarrow> A = B"
  by (cases A; cases B) (simp add: fun_eq_iff)

lemma handleJointLimits_eqI:
  assumes "\<And>i j. coeff (trajectory (group_trajectory (handleJointLimits s))) i j
             = coeff (trajectory (group_trajectory s)) i j"
  shows "handleJointLimits s = s"
proof -
  have "fold (limit_joint s) [0..<num_joints s] (trajectory (group_trajectory s))
          = trajectory (group_trajectory s)"
  proof (rule matrix_eqI)
    show "coeff (fold (limit_joint s) [0..<num_joints s] (trajectory (group_trajectory s))) i j
          = coeff (trajectory (group_trajectory s)) i j" for i j
      using assms [of i j] by (simp add: handleJointLimits_def)
  qed (simp_all add: limit_joints_dims)
  then show ?thesis by (simp add: handleJointLimits_def)
qed

lemma clamp_range: "lo \<le> hi \<Longrightarrow> lo \<le> clamp lo hi v \<and> clamp lo hi v \<le> hi"
  by (simp add: clamp_def)

lemma clamp_id: "lo \<le> v \<Longrightarrow> v \<le> hi \<Longrightarrow> clamp lo hi v = v"
  by (simp add: clamp_def)

lemma handleJointLimits_frame:
  "planning_group (handleJointLimits s) = planning_group s"
  "num_points (handleJointLimits s) = num_points s"
  "num_joints (handleJointLimits s) = num_joints s"
  by (simp_all add: handleJointLimits_def)

lemma limited_entry_after: "limited_entry (handleJointLimits s) = limited_entry s"
  by (simp add: fun_eq_iff limited_entry_def handleJointLimits_frame)

text \<open>
  Claim C4. \<^verbatim>\<open>handleJointLimits\<close> replaces every entry of a free waypoint (\<open>1 \<le> i \<le>
  num_points - 3\<close>) of a joint that declares limits by its clamp into \<open>[min, max]\<close>, each
  entry on its own, and changes no other entry; a trajectory already within the limits is
  left as it is, and projecting twice is projecting once.
\<close>

theorem joint_limit_projection:
  assumes "limits_well_formed s"
  shows "(\<forall>i j. limited_entry s i j \<longrightarrow>
            joint_limit_min (group_joints (planning_group s) ! j)
              \<le> coeff (trajectory (group_trajectory (handleJointLimits s))) i j
            \<and> coeff (trajectory (group_trajectory (handleJointLimits s))) i j
              \<le> joint_limit_max (group_joints (planning_group s) ! j)
            \<and> coeff (trajectory (group_trajectory (handleJointLimits s))) i j
              = clamp (joint_limit_min (group_joints (planning_group s) ! j))
                  (joint_limit_max (group_joints (planning_group s) ! j))
                  (coeff (trajectory (group_trajectory s)) i j))
         \<and> (\<forall>i j. \<not> limited_entry s i j \<longrightarrow>
              coeff (trajectory (group_trajectory (handleJointLimits s))) i j
                = coeff (trajectory (group_trajectory s)) i j)
         \<and> (within_limits s \<longrightarrow> handleJointLimits s = s)
         \<and> handleJointLimits (handleJointLimits s) = handleJointLimits s"
proof (intro conjI allI impI)
  fix i j
  assume e: "limited_entry s i j"
  then have "joint_limit_min (group_joints (planning_group s) ! j)
               \<le> joint_limit_max (group_joints (planning_group s) ! j)"
    using assms by (simp add: limits_well_formed_def limited_entry_def)
  then show "joint_limit_min (group_joints (planning_group s) ! j)
              \<le> coeff (trajectory (group_trajectory (handleJointLimits s))) i j"
    and "coeff (trajectory (group_trajectory (handleJointLimits s))) i j
              \<le> joint_limit_max (group_joints (planning_group s) ! j)"
    using e by (simp_all add: handleJointLimits_coeff clamp_range)
  show "coeff (trajectory (group_trajectory (handleJointLimits s))) i j
              = clamp (joint_limit_min (group_joints (planning_group s) ! j))
                  (joint_limit_max (group_joints (planning_group s) ! j))
                  (coeff (trajectory (group_trajectory s)) i j)"
    using e by (simp add: handleJointLimits_coeff)
next
  fix i j
  assume "\<not> limited_entry s i j"
  then show "coeff (trajectory (group_trajectory (handleJointLimits s))) i j
                = coeff (trajectory (group_trajectory s)) i j"
    by (simp add: handleJointLimits_coeff)
next
  assume "within_limits s"
  then show "handleJointLimits s = s"
    by (intro handleJointLimits_eqI) (simp add: handleJointLimits_coeff within_limits_def clamp_id)
next
  show "handleJointLimits (handleJointLimits s) = handleJointLimits s"
  proof (rule handleJointLimits_eqI)
    fix i j
    show "coeff (trajectory (group_trajectory (handleJointLimits (handleJointLimits s)))) i j
            = coeff (trajectory (group_trajectory (handleJointLimits s))) i j"
    proof (cases "limited_entry s i j")
      case True
      then have "joint_limit_min (group_joints (planning_group s) ! j)
               \<le> joint_limit_max (group_joints (planning_group s) ! j)"
        using assms by (simp add: limits_well_formed_def limited_entry_def)
      then show ?thesis
        using True
        by (simp add: handleJointLimits_coeff [of "handleJointLimits s"] limited_entry_after
            handleJointLimits_frame handleJointLimits_coeff [of s] clamp_range clamp_id)
    next
      case False
      then show ?thesis
        by (simp add: handleJointLimits_coeff [of "handleJointLimits s"] limited_entry_after)
    qed
  qed
qed

theorem joint_limit_projection_witness:
  "limits_well_formed demo_limits
   \<and> coeff (trajectory (group_trajectory demo_limits)) 1 0 = 5
   \<and> coeff (trajectory (group_trajectory (handleJointLimits demo_limits))) 1 0 = 1
   \<and> coeff (trajectory (group_trajectory demo_limits)) 2 0 = - 7
   \<and> coeff (trajectory (group_trajectory (handleJointLimits demo_limits))) 2 0 = - 1
   \<and> coeff (trajectory (group_trajectory (handleJointLimits demo_limits))) 3 0 = 9
   \<and> within_limits (handleJointLimits demo_limits)
   \<and> handleJointLimits (handleJointLimits demo_limits) = handleJointLimits demo_limits"
proof -
  have wf: "limits_well_formed demo_limits"
    by (simp add: limits_well_formed_def demo_limits_def demo_manager_def demo_trajectory_def)
  note t = joint_limit_projection [OF wf]
  have e: "limited_entry demo_limits 1 0" "limited_entry demo_limits 2 0"
    "\<not> limited_entry demo_limits 3 0"
    by (simp_all add: limited_entry_def demo_limits_def demo_manager_def)
  have v: "coeff (trajectory (group_trajectory demo_limits)) 1 0 = 5"
    "coeff (trajectory (group_trajectory demo_limits)) 2 0 = - 7"
    "coeff (trajectory (group_trajectory demo_limits)) 3 0 = 9"
    "joint_limit_min (group_joints (planning_group demo_limits) ! 0) = - 1"
    "joint_limit_max (group_joints (planning_group demo_limits) ! 0) = 1"
    by (simp_all add: demo_limits_def demo_manager_def)
  from t e(1) have "coeff (trajectory (group_trajectory (handleJointLimits demo_limits))) 1 0
      = clamp (joint_limit_min (group_joints (planning_group demo_limits) ! 0))
          (joint_limit_max (group_joints (planning_group demo_limits) ! 0))
          (coeff (trajectory (group_trajectory demo_limits)) 1 0)"
    by blast
  then have a: "coeff (trajectory (group_trajectory (handleJointLimits demo_limits))) 1 0 = 1"
    unfolding v by (simp add: clamp_def)
  from t e(2) have "coeff (trajectory (group_trajectory (handleJointLimits demo_limits))) 2 0
      = clamp (joint_limit_min (group_joints (planning_group demo_limits) ! 0))
          (joint_limit_max (group_joints (planning_group demo_limits) ! 0))
          (coeff (trajectory (group_trajectory demo_limits)) 2 0)"
    by blast
  then have b: "coeff (trajectory (group_trajectory (handleJointLimits demo_limits))) 2 0 = - 1"
    unfolding v by (simp add: clamp_def)
  from t e(3) have "coeff (trajectory (group_trajectory (handleJointLimits demo_limits))) 3 0
      = coeff (trajectory (group_trajectory demo_limits)) 3 0"
    by blast
  then have c: "coeff (trajectory (group_trajectory (handleJointLimits demo_limits))) 3 0 = 9"
    unfolding v .
  have w: "within_limits (handleJointLimits demo_limits)"
    unfolding within_limits_def limited_entry_after handleJointLimits_frame
    using t by blast
  from t have i: "handleJointLimits (handleJointLimits demo_limits) = handleJointLimits demo_limits"
    by blast
  show ?thesis
    using wf v a b c w i by simp
qed


lemma set_fk_buffers_other:
  "j \<noteq> i \<Longrightarrow> fk_buffers (set_fk_buffers i r s) j = fk_buffers s j"
  by (simp add: fk_buffers_def set_fk_buffers_def)

lemma fk_point_frame:
  "num_points (fk_point cb i s) = num_points s"
  "iteration (fk_point cb i s) = iteration s"
  "planning_group (fk_point cb i s) = planning_group s"
  "group_trajectory (fk_point cb i s) = group_trajectory s"
  "full_trajectory (fk_point cb i s) = full_trajectory s"
  "costAccumulator (fk_point cb i s) = costAccumulator s"
  "state_validity (fk_point cb i s) = state_validity s"
  "trajectory_validity (fk_point cb i s) = trajectory_validity s"
  "length (joint_pos (fk_point cb i s)) = length (joint_pos s)"
  "length (joint_axis (fk_point cb i s)) = length (joint_axis s)"
  "length (segment_frames (fk_point cb i s)) = length (segment_frames s)"
  "length (state_is_in_collision (fk_point cb i s)) = length (state_is_in_collision s)"
  by (simp_all add: fk_point_def Let_def set_fk_buffers_def)

lemma fk_point_collision:
  "i < length (state_is_in_collision s) \<Longrightarrow>
     is_collision_free (fk_point cb i s) = is_collision_free s"
  "state_is_in_collision (fk_point cb i s) = (state_is_in_collision s)[i := False]"
  by (auto simp add: fk_point_def Let_def set_fk_buffers_def nth_list_update)


lemma fk_fold_frame:
  "num_points (fold (fk_point cb) is s) = num_points s"
  "iteration (fold (fk_point cb) is s) = iteration s"
  "planning_group (fold (fk_point cb) is s) = planning_group s"
  "group_trajectory (fold (fk_point cb) is s) = group_trajectory s"
  "full_trajectory (fold (fk_point cb) is s) = full_trajectory s"
  "costAccumulator (fold (fk_point cb) is s) = costAccumulator s"
  "state_validity (fold (fk_point cb) is s) = state_validity s"
  "trajectory_validity (fold (fk_point cb) is s) = trajectory_validity s"
  "length (joint_pos (fold (fk_point cb) is s)) = length (joint_pos s)"
  "length (joint_axis (fold (fk_point cb) is s)) = length (joint_axis s)"
  "length (segment_frames (fold (fk_point cb) is s)) = length (segment_frames s)"
  "length (state_is_in_collision (fold (fk_point cb) is s)) = length (state_is_in_collision s)"
  by (induction "is" arbitrary: s) (simp_all add: fk_point_frame)

lemma fk_fold_collision_free:
  "\<forall>i \<in> set is. i < length (state_is_in_collision s) \<Longrightarrow>
   is_collision_free (fold (fk_point cb) is s) = is_collision_free s"
  by (induction "is" arbitrary: s) (simp_all add: fk_point_collision fk_point_frame)

lemma fk_fold_in_collision:
  "i < length (state_is_in_collision s) \<Longrightarrow>
   state_is_in_collision (fold (fk_point cb) is s) ! i =
     (if i \<in> set is then False else state_is_in_collision s ! i)"
  by (induction "is" arbitrary: s) (auto simp add: fk_point_collision nth_list_update)


lemma set_fk_buffers_frame:
  "num_points (set_fk_buffers i r s) = num_points s"
  "iteration (set_fk_buffers i r s) = iteration s"
  "planning_group (set_fk_buffers i r s) = planning_group s"
  "group_trajectory (set_fk_buffers i r s) = group_trajectory s"
  "full_trajectory (set_fk_buffers i r s) = full_trajectory s"
  "costAccumulator (set_fk_buffers i r s) = costAccumulator s"
  "state_validity (set_fk_buffers i r s) = state_validity s"
  "trajectory_validity (set_fk_buffers i r s) = trajectory_validity s"
  "is_collision_free (set_fk_buffers i r s) = is_collision_free s"
  "state_is_in_collision (set_fk_buffers i r s) = state_is_in_collision s"
  "length (joint_pos (set_fk_buffers i r s)) = length (joint_pos s)"
  "length (joint_axis (set_fk_buffers i r s)) = length (joint_axis s)"
  "length (segment_frames (set_fk_buffers i r s)) = length (segment_frames s)"
  by (simp_all add: set_fk_buffers_def)

lemma pfk_frame:
  "num_points (snd (performForwardKinematics cb s)) = num_points s"
  "iteration (snd (performForwardKinematics cb s)) = iteration s"
  "planning_group (snd (performForwardKinematics cb s)) = planning_group s"
  "group_trajectory (snd (performForwardKinematics cb s)) = group_trajectory s"
  "full_trajectory (snd (performForwardKinematics cb s)) = full_trajectory s"
  "costAccumulator (snd (performForwardKinematics cb s)) = costAccumulator s"
  "state_validity (snd (performForwardKinematics cb s)) = state_validity s"
  "length (state_is_in_collision (snd (performForwardKinematics cb s)))
     = length (state_is_in_collision s)"
  by (simp_all add: performForwardKinematics_def Let_def fk_fold_frame set_fk_buffers_frame)

lemma pfk_range:
  "for_range (if iteration s \<le> 0 then 0 else 1)
     (if iteration s \<le> 0 then int (num_points s) - 1 else int (num_points s) - 2)
   = (if iteration s \<le> 0 then [0..<num_points s] else [1..<num_points s - 1])"
  by (simp add: for_range_all for_range_interior)

lemma pfk_free:
  assumes "length (state_is_in_collision s) = num_points s"
  shows "fst (performForwardKinematics cb s)"
proof -
  have "\<forall>i \<in> set (if iteration s \<le> 0 then [0..<num_points s] else [1..<num_points s - 1]).
          i < num_points s"
    by auto
  then show ?thesis
    using assms
    by (simp add: performForwardKinematics_def Let_def pfk_range fk_fold_collision_free
        set_fk_buffers_frame)
qed

lemma pfk_in_collision:
  assumes "length (state_is_in_collision s) = num_points s" and "i < num_points s"
    and "iteration s \<le> 0 \<or> (1 \<le> i \<and> i + 2 \<le> num_points s)"
  shows "\<not> state_is_in_collision (snd (performForwardKinematics cb s)) ! i"
  using assms
  by (auto simp add: performForwardKinematics_def Let_def pfk_range fk_fold_in_collision
      set_fk_buffers_frame)


lemma validity_fold:
  "fold validity_point is s =
     s\<lparr>state_validity := fold (\<lambda>i xs. xs[i := True]) is (state_validity s)\<rparr>"
  by (induction "is" arbitrary: s) (simp_all add: validity_point_def)

lemma computeTrajectoryValidity_eq:
  "computeTrajectoryValidity s =
     s\<lparr>trajectory_validity := True,
       state_validity := fold (\<lambda>i xs. xs[i := True]) [1..<num_points s - 1] (state_validity s)\<rparr>"
  by (simp add: computeTrajectoryValidity_def validity_fold for_range_interior)

lemma validity_interior:
  assumes "length (state_validity s) = num_points s" and "1 \<le> i" and "i + 2 \<le> num_points s"
  shows "state_validity (computeTrajectoryValidity s) ! i"
proof -
  have "i < length (state_validity s)" "i \<in> set [1..<num_points s - 1]"
    using assms by auto
  then show ?thesis
    by (simp add: computeTrajectoryValidity_eq fold_update_nth)
qed

lemma handleJointLimits_frame2:
  "state_is_in_collision (handleJointLimits s) = state_is_in_collision s"
  "state_validity (handleJointLimits s) = state_validity s"
  "costAccumulator (handleJointLimits s) = costAccumulator s"
  by (simp_all add: handleJointLimits_def)

lemma evaluate_trajectory_flag:
  assumes "accumulator_keeps_manager cb" and "length (state_is_in_collision s) = num_points s"
  shows "last_trajectory_collision_free (evaluate_trajectory cb s)
           = feasible (costAccumulator (evaluate_trajectory cb s))"
proof -
  define s3 where "s3 = updateFullTrajectory cb (handleJointLimits
      (s\<lparr>group_trajectory := cb_updateTrajectoryFromFreePoints cb (group_trajectory s)\<rparr>))"
  have "length (state_is_in_collision s3) = num_points s3"
    using assms(2)
    by (simp add: s3_def updateFullTrajectory_def handleJointLimits_frame handleJointLimits_frame2)
  then have f: "fst (performForwardKinematics cb s3)"
    by (rule pfk_free)
  have k: "last_trajectory_collision_free (cb_compute cb t) = last_trajectory_collision_free t" for t
    using assms(1) by (simp add: accumulator_keeps_manager_def)
  show ?thesis
    unfolding evaluate_trajectory_def Let_def s3_def [symmetric]
    by (simp add: k f computeTrajectoryValidity_eq)
qed

lemma evaluate_trajectory_num_points:
  assumes "accumulator_keeps_manager cb"
  shows "num_points (evaluate_trajectory cb s) = num_points s"
proof -
  have k: "num_points (cb_compute cb t) = num_points t" for t
    using assms(1) by (simp add: accumulator_keeps_manager_def)
  show ?thesis
    by (simp add: evaluate_trajectory_def Let_def k computeTrajectoryValidity_eq pfk_frame
        updateFullTrajectory_def handleJointLimits_frame)
qed

lemma write_parameters_rows:
  assumes "blocks_configured s F" and "nrows P \<noteq> F"
  shows "write_parameters s P V C = Inl RosAssertion"
  using assms by (simp add: write_parameters_def blocks_configured_def Let_def)

lemma write_parameters_shape:
  assumes "blocks_configured s F" and "nrows P = F"
    and "\<not> (ncols P = num_joints s \<and> nrows V = F \<and> ncols V = num_joints s
            \<and> nrows C = F + 1 \<and> ncols C = num_contacts s)"
  shows "write_parameters s P V C = Inl EigenAssertion"
  using assms
  by (auto simp add: write_parameters_def blocks_configured_def assign_block_def Let_def)

lemma write_parameters_ok:
  assumes "blocks_configured s F" and "nrows P = F" and "ncols P = num_joints s"
    and "nrows V = F" and "ncols V = num_joints s"
    and "nrows C = F + 1" and "ncols C = num_contacts s"
  shows "write_parameters s P V C =
      Inr (s\<lparr>group_trajectory := (group_trajectory s)
             \<lparr>free_points := (free_points (group_trajectory s))
                \<lparr>coeff := \<lambda>i j. if 1 \<le> i \<and> i < 1 + F \<and> 0 \<le> j \<and> j < 0 + num_joints s
                                 then coeff P (i - 1) (j - 0)
                                 else coeff (free_points (group_trajectory s)) i j\<rparr>,
              free_vel_points := (free_vel_points (group_trajectory s))
                \<lparr>coeff := \<lambda>i j. if 1 \<le> i \<and> i < 1 + F \<and> 0 \<le> j \<and> j < 0 + num_joints s
                                 then coeff V (i - 1) (j - 0)
                                 else coeff (free_vel_points (group_trajectory s)) i j\<rparr>,
              contact_trajectory := (contact_trajectory (group_trajectory s))
                \<lparr>coeff := \<lambda>i j. if 0 \<le> i \<and> i < 0 + (F + 1) \<and> 0 \<le> j \<and> j < 0 + num_contacts s
                                 then coeff C (i - 0) (j - 0)
                                 else coeff (contact_trajectory (group_trajectory s)) i j\<rparr>\<rparr>\<rparr>)"
  using assms
  unfolding write_parameters_def blocks_configured_def assign_block_def Let_def
  by simp

lemma write_parameters_frame:
  assumes "write_parameters s P V C = Inr s1"
  shows "num_points s1 = num_points s" "state_is_in_collision s1 = state_is_in_collision s"
    "state_validity s1 = state_validity s" "iteration s1 = iteration s"
    "joint_pos s1 = joint_pos s" "joint_axis s1 = joint_axis s"
    "segment_frames s1 = segment_frames s"
  using assms
  by (auto simp add: write_parameters_def Let_def split: if_splits sum.splits)

lemma fold_update_all:
  assumes "length c = n"
  shows "fold (\<lambda>i c. c[i := f i]) [0..<n] c = map f [0..<n]"
proof (rule nth_equalityI)
  show "length (fold (\<lambda>i c. c[i := f i]) [0..<n] c) = length (map f [0..<n])"
    using assms by (simp add: fold_update_length)
next
  fix i
  assume "i < length (fold (\<lambda>i c. c[i := f i]) [0..<n] c)"
  then have "i < n" using assms by (simp add: fold_update_length)
  then show "fold (\<lambda>i c. c[i := f i]) [0..<n] c ! i = map f [0..<n] ! i"
    using assms by (simp add: fold_update_nth)
qed

lemma diagnostics_frame:
  "costAccumulator (diagnostics cb c s) = costAccumulator s"
  "num_points (diagnostics cb c s) = num_points s"
  "last_trajectory_collision_free (diagnostics cb c s) = last_trajectory_collision_free s"
  "joint_pos (diagnostics cb c s) = joint_pos s"
  "joint_axis (diagnostics cb c s) = joint_axis s"
  "segment_frames (diagnostics cb c s) = segment_frames s"
  by (simp_all add: diagnostics_def)

lemma evaluate_abort:
  "write_parameters s P V C = Inl e \<Longrightarrow> evaluate cb count s P V C costs = Inl e"
  by (simp add: evaluate_def)

lemma evaluate_costs_abort:
  "write_parameters s P V C = Inr s1 \<Longrightarrow> length costs \<noteq> num_points (evaluate_trajectory cb s1) \<Longrightarrow>
   evaluate cb count s P V C costs = Inl RosAssertion"
  by (simp add: evaluate_def Let_def)

lemma evaluate_ok:
  assumes "write_parameters s P V C = Inr s1"
    and "length costs = num_points (evaluate_trajectory cb s1)"
  shows "evaluate cb count s P V C costs =
     Inr (trajectory_cost (costAccumulator (evaluate_trajectory cb s1)),
          map (waypoint_cost (costAccumulator (evaluate_trajectory cb s1)))
            [0..<num_points (evaluate_trajectory cb s1)],
          count + 1,
          diagnostics cb (count + 1) (evaluate_trajectory cb s1))"
  using assms
  by (simp add: evaluate_def Let_def diagnostics_frame fold_update_all)

lemma returned_costs_eq:
  "returned_costs (evaluate cb c1 s P V C costs) = returned_costs (evaluate cb c2 s P V C costs)"
proof (cases "write_parameters s P V C")
  case (Inl e)
  then show ?thesis by (simp add: evaluate_abort)
next
  case (Inr s1)
  show ?thesis
  proof (cases "length costs = num_points (evaluate_trajectory cb s1)")
    case True
    then show ?thesis using Inr by (simp add: evaluate_ok returned_costs_def)
  next
    case False
    then show ?thesis using Inr by (simp add: evaluate_costs_abort)
  qed
qed

text \<open>
  Claim C9. With the group trajectory's blocks sized for the configured counts,
  \<^verbatim>\<open>evaluate\<close> aborts exactly when the shape of the position, velocity or contact block
  or the length of the cost vector does not match them.
\<close>

theorem evaluate_fails_on_shape_mismatch:
  assumes "blocks_configured s F" and "accumulator_keeps_manager cb"
  shows "(\<exists>e. evaluate cb count s P V C costs = Inl e) \<longleftrightarrow> \<not> shapes_match s F P V C costs"
proof (cases "nrows P = F")
  case False
  then show ?thesis
    using assms(1) by (simp add: write_parameters_rows evaluate_abort shapes_match_def)
next
  case rows: True
  show ?thesis
  proof (cases "ncols P = num_joints s \<and> nrows V = F \<and> ncols V = num_joints s
            \<and> nrows C = F + 1 \<and> ncols C = num_contacts s")
    case False
    then have "write_parameters s P V C = Inl EigenAssertion"
      using assms(1) rows by (intro write_parameters_shape) simp_all
    then show ?thesis
      using False by (auto simp add: evaluate_abort shapes_match_def)
  next
    case True
    then obtain s1 where w: "write_parameters s P V C = Inr s1"
      using write_parameters_ok [OF assms(1) rows, of V C] by simp
    have n: "num_points (evaluate_trajectory cb s1) = num_points s"
      using assms(2) w by (simp add: evaluate_trajectory_num_points write_parameters_frame)
    show ?thesis
    proof (cases "length costs = num_points s")
      case len: True
      then show ?thesis
        using w n True rows by (simp add: evaluate_ok shapes_match_def)
    next
      case False
      then show ?thesis
        using w n by (simp add: evaluate_costs_abort shapes_match_def)
    qed
  qed
qed

text \<open>
  Claim C10. The forward-kinematics pass reports no collision and marks every waypoint it
  visits as not in collision; the validity check sets the trajectory valid and marks
  every interior waypoint valid; so after \<^verbatim>\<open>evaluate\<close> the flag
  \<^verbatim>\<open>last_trajectory_collision_free_\<close> is the accumulator's feasibility report.
\<close>

theorem validity_and_collision_always_pass:
  assumes "length (state_is_in_collision s) = num_points s"
    and "length (state_validity s) = num_points s"
  shows "fst (performForwardKinematics cb s)
     \<and> (\<forall>i < num_points s. iteration s \<le> 0 \<or> (1 \<le> i \<and> i + 2 \<le> num_points s) \<longrightarrow>
           \<not> state_is_in_collision (snd (performForwardKinematics cb s)) ! i)
     \<and> trajectory_validity (computeTrajectoryValidity s)
     \<and> (\<forall>i. 1 \<le> i \<and> i + 2 \<le> num_points s \<longrightarrow> state_validity (computeTrajectoryValidity s) ! i)
     \<and> (accumulator_keeps_manager cb \<longrightarrow>
          (\<forall>total costs' count' s'.
             evaluate cb count s P V C costs = Inr (total, costs', count', s') \<longrightarrow>
               last_trajectory_collision_free s' = feasible (costAccumulator s')))"
proof (intro conjI allI impI)
  show "fst (performForwardKinematics cb s)"
    using assms(1) by (rule pfk_free)
next
  fix i
  assume "i < num_points s" and "iteration s \<le> 0 \<or> (1 \<le> i \<and> i + 2 \<le> num_points s)"
  with assms(1) show "\<not> state_is_in_collision (snd (performForwardKinematics cb s)) ! i"
    by (rule pfk_in_collision)
next
  show "trajectory_validity (computeTrajectoryValidity s)"
    by (simp add: computeTrajectoryValidity_eq)
next
  fix i
  assume "1 \<le> i \<and> i + 2 \<le> num_points s"
  then show "state_validity (computeTrajectoryValidity s) ! i"
    using assms(2) by (simp add: validity_interior)
next
  fix total costs' count' s'
  assume k: "accumulator_keeps_manager cb"
    and r: "evaluate cb count s P V C costs = Inr (total, costs', count', s')"
  then obtain s1 where w: "write_parameters s P V C = Inr s1"
    by (cases "write_parameters s P V C") (simp_all add: evaluate_abort)
  have len: "length costs = num_points (evaluate_trajectory cb s1)"
    using r w by (cases "length costs = num_points (evaluate_trajectory cb s1)")
      (simp_all add: evaluate_costs_abort)
  have s': "s' = diagnostics cb (count + 1) (evaluate_trajectory cb s1)"
    using r evaluate_ok [OF w len, of count] by auto
  have "length (state_is_in_collision s1) = num_points s1"
    using assms(1) w by (simp add: write_parameters_frame)
  with k have "last_trajectory_collision_free (evaluate_trajectory cb s1)
           = feasible (costAccumulator (evaluate_trajectory cb s1))"
    by (rule evaluate_trajectory_flag)
  then show "last_trajectory_collision_free s' = feasible (costAccumulator s')"
    by (simp add: s' diagnostics_frame)
qed

lemma demo_accumulator: "accumulator_keeps_manager demo_collaborators"
  by (simp add: accumulator_keeps_manager_def demo_collaborators_def)

lemma demo_configured:
  "blocks_configured (demo_manager g a) 1" "blocks_configured demo_first_iteration 1"
  by (simp_all add: blocks_configured_def demo_first_iteration_def demo_manager_def
      demo_trajectory_def demo_matrix_def)

lemma demo_shapes:
  "nrows demo_parameters = 1" "ncols demo_parameters = 1"
  "nrows demo_contact_parameters = 1 + 1" "ncols demo_contact_parameters = 1"
  "length demo_costs = 3"
  "num_joints (demo_manager g a) = 1" "num_contacts (demo_manager g a) = 1"
  "num_points (demo_manager g a) = 3"
  "num_joints demo_first_iteration = 1" "num_contacts demo_first_iteration = 1"
  "num_points demo_first_iteration = 3"
  by (simp_all add: demo_parameters_def demo_contact_parameters_def demo_costs_def
      demo_matrix_def demo_manager_def demo_first_iteration_def)

lemma demo_write:
  "\<exists>s1. write_parameters (demo_manager g a) demo_parameters demo_parameters
          demo_contact_parameters = Inr s1"
  "\<exists>s1. write_parameters demo_first_iteration demo_parameters demo_parameters
          demo_contact_parameters = Inr s1"
  using write_parameters_ok [OF demo_configured(1) demo_shapes(1), of g a demo_parameters
      demo_contact_parameters]
    write_parameters_ok [OF demo_configured(2) demo_shapes(1), of demo_parameters
      demo_contact_parameters]
  by (simp_all add: demo_shapes)

lemma demo_evaluate:
  assumes "write_parameters s demo_parameters demo_parameters demo_contact_parameters = Inr s1"
    and "num_points s = 3"
  shows "evaluate demo_collaborators count s demo_parameters demo_parameters
           demo_contact_parameters demo_costs =
     Inr (trajectory_cost (costAccumulator (evaluate_trajectory demo_collaborators s1)),
          map (waypoint_cost (costAccumulator (evaluate_trajectory demo_collaborators s1)))
            [0..<num_points (evaluate_trajectory demo_collaborators s1)],
          count + 1,
          diagnostics demo_collaborators (count + 1) (evaluate_trajectory demo_collaborators s1))"
proof (rule evaluate_ok [OF assms(1)])
  show "length demo_costs = num_points (evaluate_trajectory demo_collaborators s1)"
    using assms
    by (simp add: evaluate_trajectory_num_points [OF demo_accumulator] write_parameters_frame
        demo_shapes)
qed

lemma demo_lengths:
  "length (joint_pos (demo_manager g a)) = num_points (demo_manager g a)"
  "length (joint_axis (demo_manager g a)) = num_points (demo_manager g a)"
  "length (segment_frames (demo_manager g a)) = num_points (demo_manager g a)"
  "length (state_is_in_collision (demo_manager g a)) = num_points (demo_manager g a)"
  "length (state_validity (demo_manager g a)) = num_points (demo_manager g a)"
  "length (joint_pos demo_first_iteration) = num_points demo_first_iteration"
  "length (joint_axis demo_first_iteration) = num_points demo_first_iteration"
  "length (segment_frames demo_first_iteration) = num_points demo_first_iteration"
  by (simp_all add: demo_manager_def demo_first_iteration_def)

theorem evaluate_fails_on_shape_mismatch_witness:
  "blocks_configured (demo_manager ''whole_body'' 3) 1
   \<and> accumulator_keeps_manager demo_collaborators
   \<and> shapes_match (demo_manager ''whole_body'' 3) 1 demo_parameters demo_parameters
        demo_contact_parameters demo_costs
   \<and> (\<forall>e. evaluate demo_collaborators 0 (demo_manager ''whole_body'' 3) demo_parameters
              demo_parameters demo_contact_parameters demo_costs \<noteq> Inl e)
   \<and> (\<exists>e. evaluate demo_collaborators 0 (demo_manager ''whole_body'' 3) demo_parameters
              (demo_matrix 1 2 0) demo_contact_parameters demo_costs = Inl e)
   \<and> (\<exists>e. evaluate demo_collaborators 0 (demo_manager ''whole_body'' 3) demo_parameters
              demo_parameters demo_contact_parameters [7, 7] = Inl e)"
proof -
  have m: "shapes_match (demo_manager ''whole_body'' 3) 1 demo_parameters demo_parameters
        demo_contact_parameters demo_costs"
    "\<not> shapes_match (demo_manager ''whole_body'' 3) 1 demo_parameters (demo_matrix 1 2 0)
        demo_contact_parameters demo_costs"
    "\<not> shapes_match (demo_manager ''whole_body'' 3) 1 demo_parameters demo_parameters
        demo_contact_parameters [7, 7]"
    by (simp_all add: shapes_match_def demo_shapes) (simp add: demo_matrix_def)
  show ?thesis
    using evaluate_fails_on_shape_mismatch [where s = "demo_manager ''whole_body'' 3" and F = 1
        and cb = demo_collaborators and count = 0 and P = demo_parameters and V = demo_parameters
        and C = demo_contact_parameters and costs = demo_costs,
        OF demo_configured(1) demo_accumulator]
      evaluate_fails_on_shape_mismatch [where s = "demo_manager ''whole_body'' 3" and F = 1
        and cb = demo_collaborators and count = 0 and P = demo_parameters
        and V = "demo_matrix 1 2 0" and C = demo_contact_parameters and costs = demo_costs,
        OF demo_configured(1) demo_accumulator]
      evaluate_fails_on_shape_mismatch [where s = "demo_manager ''whole_body'' 3" and F = 1
        and cb = demo_collaborators and count = 0 and P = demo_parameters and V = demo_parameters
        and C = demo_contact_parameters and costs = "[7, 7]",
        OF demo_configured(1) demo_accumulator]
      m demo_configured(1) demo_accumulator
    by simp
qed

theorem validity_and_collision_always_pass_witness:
  "fst (performForwardKinematics demo_collaborators (demo_manager ''whole_body'' 3))
   \<and> \<not> state_is_in_collision
          (snd (performForwardKinematics demo_collaborators (demo_manager ''whole_body'' 3))) ! 1
   \<and> trajectory_validity (computeTrajectoryValidity (demo_manager ''whole_body'' 3))
   \<and> state_validity (computeTrajectoryValidity (demo_manager ''whole_body'' 3)) ! 1
   \<and> accumulator_keeps_manager demo_collaborators
   \<and> (\<exists>total costs' count' s'.
         evaluate demo_collaborators 0 (demo_manager ''whole_body'' 3) demo_parameters
           demo_parameters demo_contact_parameters demo_costs = Inr (total, costs', count', s')
         \<and> last_trajectory_collision_free s' = feasible (costAccumulator s'))"
proof -
  note t = validity_and_collision_always_pass [where s = "demo_manager ''whole_body'' 3"
      and cb = demo_collaborators and count = 0 and P = demo_parameters and V = demo_parameters
      and C = demo_contact_parameters and costs = demo_costs, OF demo_lengths(4,5)]
  obtain s1 where w: "write_parameters (demo_manager ''whole_body'' 3) demo_parameters
      demo_parameters demo_contact_parameters = Inr s1"
    using demo_write(1) by blast
  note e = demo_evaluate [OF w demo_shapes(8), of 0]
  have n: "num_points (demo_manager ''whole_body'' 3) = 3" by (simp add: demo_shapes)
  from t have "fst (performForwardKinematics demo_collaborators (demo_manager ''whole_body'' 3))"
    by blast
  moreover from t n have "\<not> state_is_in_collision
          (snd (performForwardKinematics demo_collaborators (demo_manager ''whole_body'' 3))) ! 1"
    by simp
  moreover from t have
    "trajectory_validity (computeTrajectoryValidity (demo_manager ''whole_body'' 3))"
    by blast
  moreover from t n have
    "state_validity (computeTrajectoryValidity (demo_manager ''whole_body'' 3)) ! 1"
    by simp
  moreover from t demo_accumulator e have "\<exists>total costs' count' s'.
         evaluate demo_collaborators 0 (demo_manager ''whole_body'' 3) demo_parameters
           demo_parameters demo_contact_parameters demo_costs = Inr (total, costs', count', s')
         \<and> last_trajectory_collision_free s' = feasible (costAccumulator s')"
    by blast
  ultimately show ?thesis using demo_accumulator by blast
qed








lemma length_matrix_row [simp]: "length (matrix_row m i n) = n"
  by (simp add: matrix_row_def)

lemma nth_matrix_row [simp]: "d < n \<Longrightarrow> matrix_row m i n ! d = coeff m i d"
  by (simp add: matrix_row_def)


































end
